theory Spec2Isabelle
  imports Complex_Main "HOL-Library.Log_Nat" "HOL-Library.AList"
begin

section \<open>Fake news detection notebook: the feature pipeline and its callers\<close>

text \<open>
  The notebook \<^verbatim>\<open>fake_news_detection/Fake News Detection with Tensorflow.ipynb\<close> is
  glue code over pandas, textstat, textblob, scikit-learn and Keras. The functions of
  the notebook are embedded below, one HOL definition per Python function, with the
  same names. What the libraries compute (readability scores, sentiment, the network
  fetch, cross-validation) is not part of the repository and enters as a parameter.
\<close>

subsection \<open>Python values and exceptions\<close>

text \<open>
  A cell of a pandas column, as the notebook meets it after \<^verbatim>\<open>pd.read_json\<close>: a
  \<^verbatim>\<open>str\<close>, an \<^verbatim>\<open>int\<close>, a finite \<^verbatim>\<open>float\<close> (the rational number it denotes), a
  \<^verbatim>\<open>bool\<close>, the float NaN (a JSON null in a numeric column) and \<^verbatim>\<open>None\<close> (a JSON
  null in a column of strings).
\<close>

datatype cell = PyStr string | PyInt int | PyFloat rat | PyBool bool | PyNaN | PyNone

text \<open>The exceptions the modelled code can raise. \<open>LibraryError\<close> carries a message of
  a library outside the repository (the network, the JSON parser, a classifier).\<close>

datatype py_error =
    KeyError "string list"
  | TypeError
  | ValueError
  | ZeroDivisionError
  | LibraryError string

subsection \<open>Strings\<close>

text \<open>\<^verbatim>\<open>hay.startswith(needle)\<close> and \<^verbatim>\<open>needle in hay\<close> on \<^verbatim>\<open>str\<close>.\<close>

fun startswith :: "string \<Rightarrow> string \<Rightarrow> bool" where
  "startswith hay [] = True"
| "startswith [] (n # ns) = False"
| "startswith (h # hs) (n # ns) = (h = n \<and> startswith hs ns)"

fun str_contains :: "string \<Rightarrow> string \<Rightarrow> bool" where
  "str_contains [] needle = (needle = [])"
| "str_contains (h # hs) needle = (startswith (h # hs) needle \<or> str_contains hs needle)"

subsection \<open>Suspicious country\<close>

text \<open>
  \<^verbatim>\<open>
  def is_suspicious_country(country):
      sus_countries = ["MK", "PA"]
      return int(country in sus_countries or "REDACTED" in country)
  \<close>
  A value that is not a \<^verbatim>\<open>str\<close> is equal to no element of the list, and the
  right operand of \<^verbatim>\<open>or\<close> then raises TypeError (\<^verbatim>\<open>"REDACTED" in None\<close>).
\<close>

definition sus_countries :: "string list" where
  "sus_countries = [''MK'', ''PA'']"

definition int_of_bool :: "bool \<Rightarrow> int" where
  "int_of_bool b = (if b then 1 else 0)"

fun is_suspicious_country :: "cell \<Rightarrow> py_error + cell" where
  "is_suspicious_country (PyStr country) =
     Inr (PyInt (int_of_bool (country \<in> set sus_countries \<or> str_contains country ''REDACTED'')))"
| "is_suspicious_country other = Inl TypeError"

subsection \<open>Python floats\<close>

text \<open>
  A Python \<^verbatim>\<open>float\<close> is an IEEE 754 binary64 number, and every arithmetic operation
  returns the exact result rounded to the nearest binary64 number, ties to the even
  significand. A finite float is modelled by the rational number it denotes.
  \<open>round_binary64\<close> rounds a rational to the grid of binary64: 53 significant bits,
  and the fixed spacing \<open>2 powi (- 1074)\<close> in the subnormal range. Overflow to infinity
  is not modelled: no operation of the notebook can overflow on finite inputs
  (it adds 1, halves, and divides by a timestamp or a word count that is at least 1).
\<close>

definition round_half_even :: "rat \<Rightarrow> int" where
  "round_half_even t =
     (let f = \<lfloor>t\<rfloor>; r = t - of_int f
      in if r < 1 / 2 then f else if 1 / 2 < r then f + 1 else if even f then f else f + 1)"

text \<open>The binary exponent of a positive rational: \<open>2 powi e \<le> x < 2 powi (e + 1)\<close>.\<close>

definition floor_log2 :: "rat \<Rightarrow> int" where
  "floor_log2 x = (if 1 \<le> x then bitlen \<lfloor>x\<rfloor> - 1 else - bitlen (\<lceil>1 / x\<rceil> - 1))"

definition quantum_exp :: "rat \<Rightarrow> int" where
  "quantum_exp x = max (floor_log2 \<bar>x\<bar> - 52) (- 1074)"

definition round_binary64 :: "rat \<Rightarrow> rat" where
  "round_binary64 x =
     (if x = 0 then 0
      else of_int (round_half_even (x / 2 powi quantum_exp x)) * 2 powi quantum_exp x)"

text \<open>A rational is a binary64 number when rounding leaves it as it is.\<close>

definition is_binary64 :: "rat \<Rightarrow> bool" where
  "is_binary64 x \<longleftrightarrow> round_binary64 x = x"

text \<open>\<^verbatim>\<open>float(i)\<close>, \<^verbatim>\<open>x + y\<close>, \<^verbatim>\<open>x * y\<close> and \<^verbatim>\<open>x / y\<close> on floats, and \<^verbatim>\<open>a / b\<close> on
  ints (true division, correctly rounded in CPython).\<close>

definition float_of_int :: "int \<Rightarrow> rat" where
  "float_of_int i = round_binary64 (of_int i)"

definition float_add :: "rat \<Rightarrow> rat \<Rightarrow> rat" where
  "float_add x y = round_binary64 (x + y)"

definition float_mul :: "rat \<Rightarrow> rat \<Rightarrow> rat" where
  "float_mul x y = round_binary64 (x * y)"

definition float_truediv :: "rat \<Rightarrow> rat \<Rightarrow> py_error + rat" where
  "float_truediv x y = (if y = 0 then Inl ZeroDivisionError else Inr (round_binary64 (x / y)))"

definition int_truediv :: "int \<Rightarrow> int \<Rightarrow> py_error + rat" where
  "int_truediv a b =
     (if b = 0 then Inl ZeroDivisionError else Inr (round_binary64 (of_int a / of_int b)))"

subsection \<open>Exceptions as values\<close>

text \<open>Sequencing: the first exception ends the computation.\<close>

definition and_then :: "'e + 'a \<Rightarrow> ('a \<Rightarrow> 'e + 'b) \<Rightarrow> 'e + 'b" where
  "and_then m f = (case m of Inl e \<Rightarrow> Inl e | Inr a \<Rightarrow> f a)"

subsection \<open>The text libraries\<close>

text \<open>
  textstat and textblob are not part of the repository. Their functions are fields of
  a record that every caller receives: \<^verbatim>\<open>textstat.flesch_reading_ease\<close>,
  \<^verbatim>\<open>textstat.lexicon_count\<close>, \<^verbatim>\<open>textstat.difficult_words\<close> and
  \<^verbatim>\<open>textblob.TextBlob(article).sentiment\<close> (polarity, subjectivity). They are
  functions of a \<^verbatim>\<open>str\<close> that return ints and finite floats. A call on a value
  that is not a \<^verbatim>\<open>str\<close> fails: TextBlob raises TypeError, and the model returns
  TypeError for the textstat functions as well.
\<close>

record textlib =
  flesch_reading_ease :: "string \<Rightarrow> rat"
  lexicon_count :: "string \<Rightarrow> int"
  difficult_words :: "string \<Rightarrow> int"
  sentiment :: "string \<Rightarrow> rat \<times> rat"

subsection \<open>Difficult words\<close>

text \<open>
  \<^verbatim>\<open>
  def percent_difficult_words(article):
      if textstat.lexicon_count(article) == 0:
          return 0
      return textstat.difficult_words(article) / textstat.lexicon_count(article)
  \<close>
\<close>

fun percent_difficult_words :: "'a textlib_scheme \<Rightarrow> cell \<Rightarrow> py_error + cell" where
  "percent_difficult_words lib (PyStr article) =
     (if lexicon_count lib article = 0 then Inr (PyInt 0)
      else and_then (int_truediv (difficult_words lib article) (lexicon_count lib article))
             (\<lambda>q. Inr (PyFloat q)))"
| "percent_difficult_words lib other = Inl TypeError"

subsection \<open>Sentiment\<close>

text \<open>
  \<^verbatim>\<open>
  def analyze_sentiment(article):
      article = textblob.TextBlob(article)
      return (article.sentiment.polarity + 1) / 2, (article.sentiment.subjectivity + 1) / 2
  \<close>
  The literals 1 and 2 are ints, converted to the floats 1.0 and 2.0 by the float
  operations.
\<close>

fun analyze_sentiment :: "'a textlib_scheme \<Rightarrow> cell \<Rightarrow> py_error + rat \<times> rat" where
  "analyze_sentiment lib (PyStr article) =
     and_then (float_truediv (float_add (fst (sentiment lib article)) 1) 2) (\<lambda>polarity.
     and_then (float_truediv (float_add (snd (sentiment lib article)) 1) 2) (\<lambda>subjectivity.
     Inr (polarity, subjectivity)))"
| "analyze_sentiment lib other = Inl TypeError"

subsection \<open>Data frames\<close>

text \<open>
  A pandas DataFrame: the row labels and the columns in their order, each column a
  name and one cell per row. In a frame that pandas can build, the names are distinct
  and every column has one cell per row label (\<open>wf_dataframe\<close>).
\<close>

record dataframe =
  index :: "cell list"
  columns :: "(string \<times> cell list) list"

definition column_names :: "dataframe \<Rightarrow> string set" where
  "column_names df = fst ` set (columns df)"

definition wf_dataframe :: "dataframe \<Rightarrow> bool" where
  "wf_dataframe df \<longleftrightarrow>
     distinct (map fst (columns df)) \<and>
     list_all (\<lambda>c. length (snd c) = length (index df)) (columns df)"

text \<open>The cells that are a \<^verbatim>\<open>str\<close>, and the cells that can be divided by a float.\<close>

fun is_str :: "cell \<Rightarrow> bool" where
  "is_str (PyStr s) = True"
| "is_str other = False"

fun is_number :: "cell \<Rightarrow> bool" where
  "is_number (PyStr s) = False"
| "is_number PyNone = False"
| "is_number other = True"

text \<open>\<^verbatim>\<open>df[name]\<close>: KeyError when the frame has no such column.\<close>

definition getitem :: "dataframe \<Rightarrow> string \<Rightarrow> py_error + cell list" where
  "getitem df name =
     (case map_of (columns df) name of None \<Rightarrow> Inl (KeyError [name]) | Some xs \<Rightarrow> Inr xs)"

text \<open>\<^verbatim>\<open>df[name] = cells\<close>: an existing column is overwritten where it stands, a new one
  is appended; ValueError when the number of cells is not the number of rows.\<close>

definition setitem :: "dataframe \<Rightarrow> string \<Rightarrow> cell list \<Rightarrow> py_error + dataframe" where
  "setitem df name xs =
     (if length xs \<noteq> length (index df) then Inl ValueError
      else Inr (df\<lparr>columns := AList.update name xs (columns df)\<rparr>))"

text \<open>\<^verbatim>\<open>series.apply(f)\<close> and \<^verbatim>\<open>series.map(f)\<close>: \<open>f\<close> on every cell, in row order.\<close>

fun series_apply :: "(cell \<Rightarrow> py_error + 'a) \<Rightarrow> cell list \<Rightarrow> py_error + 'a list" where
  "series_apply f [] = Inr []"
| "series_apply f (x # xs) =
     and_then (f x) (\<lambda>v. and_then (series_apply f xs) (\<lambda>vs. Inr (v # vs)))"

text \<open>\<^verbatim>\<open>df.drop(columns=names)\<close>: KeyError with the names the frame does not have.\<close>

definition drop_columns :: "string list \<Rightarrow> dataframe \<Rightarrow> py_error + dataframe" where
  "drop_columns names df =
     (let missing = filter (\<lambda>n. n \<notin> column_names df) names
      in if missing \<noteq> [] then Inl (KeyError missing)
         else Inr (df\<lparr>columns := filter (\<lambda>c. fst c \<notin> set names) (columns df)\<rparr>))"

text \<open>\<^verbatim>\<open>df.reset_index(drop=True)\<close>: the row labels become 0, 1, 2, ...\<close>

definition reset_index :: "dataframe \<Rightarrow> dataframe" where
  "reset_index df = df\<lparr>index := map (\<lambda>i. PyInt (int i)) [0..<length (index df)]\<rparr>"

text \<open>\<^verbatim>\<open>df.values\<close> of a well-formed frame: the rows, each with one cell per column.\<close>

definition dataframe_values :: "dataframe \<Rightarrow> cell list list" where
  "dataframe_values df =
     map (\<lambda>i. map (\<lambda>c. snd c ! i) (columns df)) [0..<length (index df)]"

subsection \<open>Adding features\<close>

text \<open>
  \<^verbatim>\<open>
  def add_suspicious_country_column(fake_news_df):
      fake_news_df["is_suspicious_country"] = fake_news_df["country"].apply(lambda x: is_suspicious_country(x))
      return fake_news_df
  \<close>
  and likewise for the other columns.
\<close>

definition add_suspicious_country_column :: "dataframe \<Rightarrow> py_error + dataframe" where
  "add_suspicious_country_column fake_news_df =
     and_then (getitem fake_news_df ''country'') (\<lambda>country.
     and_then (series_apply is_suspicious_country country) (\<lambda>flags.
     setitem fake_news_df ''is_suspicious_country'' flags))"

fun text_flesch_reading_ease :: "'a textlib_scheme \<Rightarrow> cell \<Rightarrow> py_error + cell" where
  "text_flesch_reading_ease lib (PyStr article) = Inr (PyFloat (flesch_reading_ease lib article))"
| "text_flesch_reading_ease lib other = Inl TypeError"

definition add_flesch_reading_ease_column ::
  "'a textlib_scheme \<Rightarrow> dataframe \<Rightarrow> py_error + dataframe" where
  "add_flesch_reading_ease_column lib fake_news_df =
     and_then (getitem fake_news_df ''article_text'') (\<lambda>article_text.
     and_then (series_apply (text_flesch_reading_ease lib) article_text) (\<lambda>scores.
     setitem fake_news_df ''flesch_reading_ease'' scores))"

definition add_percent_difficult_words_column ::
  "'a textlib_scheme \<Rightarrow> dataframe \<Rightarrow> py_error + dataframe" where
  "add_percent_difficult_words_column lib fake_news_df =
     and_then (getitem fake_news_df ''article_text'') (\<lambda>article_text.
     and_then (series_apply (percent_difficult_words lib) article_text) (\<lambda>ratios.
     setitem fake_news_df ''percent_difficult_words'' ratios))"

text \<open>
  \<^verbatim>\<open>
  def add_sentiment_columns(fake_news_df):
      fake_news_df["article_polarity"], fake_news_df["article_subjectivity"] = zip(
          *fake_news_df["article_text"].map(analyze_sentiment)
      )
      return fake_news_df
  \<close>
  \<^verbatim>\<open>zip(*pairs)\<close> yields the tuple of polarities and the tuple of subjectivities; for
  a frame with no rows it yields nothing, and unpacking it into two targets raises
  ValueError.
\<close>

definition unzip_pairs :: "(rat \<times> rat) list \<Rightarrow> py_error + cell list \<times> cell list" where
  "unzip_pairs pairs =
     (if pairs = [] then Inl ValueError
      else Inr (map (\<lambda>p. PyFloat (fst p)) pairs, map (\<lambda>p. PyFloat (snd p)) pairs))"

definition add_sentiment_columns ::
  "'a textlib_scheme \<Rightarrow> dataframe \<Rightarrow> py_error + dataframe" where
  "add_sentiment_columns lib fake_news_df =
     and_then (getitem fake_news_df ''article_text'') (\<lambda>article_text.
     and_then (series_apply (analyze_sentiment lib) article_text) (\<lambda>pairs.
     and_then (unzip_pairs pairs) (\<lambda>unzipped.
     and_then (setitem fake_news_df ''article_polarity'' (fst unzipped)) (\<lambda>df1.
     setitem df1 ''article_subjectivity'' (snd unzipped)))))"

definition add_features :: "'a textlib_scheme \<Rightarrow> dataframe \<Rightarrow> py_error + dataframe" where
  "add_features lib fake_news_df =
     and_then (add_suspicious_country_column fake_news_df) (\<lambda>df1.
     and_then (add_flesch_reading_ease_column lib df1) (\<lambda>df2.
     and_then (add_percent_difficult_words_column lib df2) (\<lambda>df3.
     add_sentiment_columns lib df3)))"

text \<open>The names of the columns that \<open>add_features\<close> writes.\<close>

definition derived_columns :: "string list" where
  "derived_columns = [''is_suspicious_country'', ''flesch_reading_ease'',
     ''percent_difficult_words'', ''article_polarity'', ''article_subjectivity'']"

subsection \<open>Dropping and scaling features\<close>

text \<open>
  \<^verbatim>\<open>
  def drop_features(fake_news_df):
      fake_news_df = fake_news_df.drop(columns=["id", "article_text", "country", "title", "news_url"])
      fake_news_df = fake_news_df.reset_index(drop=True)
      return fake_news_df
  \<close>
\<close>

definition dropped_columns :: "string list" where
  "dropped_columns = [''id'', ''article_text'', ''country'', ''title'', ''news_url'']"

definition drop_features :: "dataframe \<Rightarrow> py_error + dataframe" where
  "drop_features fake_news_df =
     and_then (drop_columns dropped_columns fake_news_df) (\<lambda>df1. Inr (reset_index df1))"

text \<open>
  \<^verbatim>\<open>
  def scale_creation_dates(fake_news_df):
      now_timestamp = datetime.datetime.now().timestamp()
      fake_news_df["creation_date"] = fake_news_df["creation_date"].apply(lambda x: x / now_timestamp)
      return fake_news_df
  \<close>
  The wall clock is the parameter \<open>now_timestamp\<close>, a float. \<open>timestamp_div\<close> is the
  lambda: \<^verbatim>\<open>x / now_timestamp\<close> for a cell \<open>x\<close>. An int or a bool is converted to a
  float first; NaN divided by a nonzero float is NaN; a \<^verbatim>\<open>str\<close> or \<^verbatim>\<open>None\<close> raises
  TypeError.
\<close>

fun timestamp_div :: "rat \<Rightarrow> cell \<Rightarrow> py_error + cell" where
  "timestamp_div now_timestamp (PyInt i) =
     and_then (float_truediv (float_of_int i) now_timestamp) (\<lambda>q. Inr (PyFloat q))"
| "timestamp_div now_timestamp (PyFloat x) =
     and_then (float_truediv x now_timestamp) (\<lambda>q. Inr (PyFloat q))"
| "timestamp_div now_timestamp (PyBool b) =
     and_then (float_truediv (float_of_int (int_of_bool b)) now_timestamp) (\<lambda>q. Inr (PyFloat q))"
| "timestamp_div now_timestamp PyNaN =
     (if now_timestamp = 0 then Inl ZeroDivisionError else Inr PyNaN)"
| "timestamp_div now_timestamp (PyStr s) = Inl TypeError"
| "timestamp_div now_timestamp PyNone = Inl TypeError"

definition scale_creation_dates :: "rat \<Rightarrow> dataframe \<Rightarrow> py_error + dataframe" where
  "scale_creation_dates now_timestamp fake_news_df =
     and_then (getitem fake_news_df ''creation_date'') (\<lambda>creation_date.
     and_then (series_apply (timestamp_div now_timestamp) creation_date) (\<lambda>scaled.
     setitem fake_news_df ''creation_date'' scaled))"

definition scale_features :: "rat \<Rightarrow> dataframe \<Rightarrow> py_error + dataframe" where
  "scale_features now_timestamp fake_news_df = scale_creation_dates now_timestamp fake_news_df"

text \<open>
  \<^verbatim>\<open>
  def refine_fake_news_data(fake_news_df):
      fake_news_df = add_features(fake_news_df)
      fake_news_df = drop_features(fake_news_df)
      fake_news_df = scale_features(fake_news_df)
      return fake_news_df
  \<close>
\<close>

definition refine_fake_news_data ::
  "'a textlib_scheme \<Rightarrow> rat \<Rightarrow> dataframe \<Rightarrow> py_error + dataframe" where
  "refine_fake_news_data lib now_timestamp fake_news_df =
     and_then (add_features lib fake_news_df) (\<lambda>df1.
     and_then (drop_features df1) (\<lambda>df2.
     scale_features now_timestamp df2))"

subsection \<open>Loading the data\<close>

text \<open>
  \<^verbatim>\<open>
  def load_fake_news_data(file_name):
      url = "https://raw.githubusercontent.com/HackBinghamton/MachineLearningWorkshopWeek2/master/fake_news_detection/" + file_name
      json_data = requests.get(url).text
      fake_news_data = pd.read_json(json_data)
      fake_news_features = fake_news_data.drop(columns=["is_fake"])
      fake_news_labels = fake_news_data["is_fake"]
      return fake_news_features, fake_news_labels
  \<close>
  The network and the JSON parser are outside the repository. The network is a
  parameter \<open>http\<close>: the body of the response to a request for a URL, or the exception
  that \<^verbatim>\<open>requests.get\<close> raises, given the requests sent before. The requests sent are
  the state that the loader threads through, so that a second attempt would show.
  \<^verbatim>\<open>pd.read_json\<close> is the parameter \<open>read_json\<close>.
\<close>

definition base_url :: string where
  "base_url =
     ''https://raw.githubusercontent.com/HackBinghamton/MachineLearningWorkshopWeek2/master/fake_news_detection/''"

definition requests_get_text ::
  "(string list \<Rightarrow> string \<Rightarrow> py_error + string) \<Rightarrow> string \<Rightarrow> string list
     \<Rightarrow> (py_error + string) \<times> string list" where
  "requests_get_text http url sent = (http sent url, sent @ [url])"

definition load_fake_news_data ::
  "(string list \<Rightarrow> string \<Rightarrow> py_error + string) \<Rightarrow> (string \<Rightarrow> py_error + dataframe)
     \<Rightarrow> string \<Rightarrow> string list \<Rightarrow> (py_error + dataframe \<times> cell list) \<times> string list" where
  "load_fake_news_data http read_json file_name sent =
     (let url = base_url @ file_name;
          response = requests_get_text http url sent
      in (and_then (fst response) (\<lambda>json_data.
          and_then (read_json json_data) (\<lambda>fake_news_data.
          and_then (drop_columns [''is_fake''] fake_news_data) (\<lambda>fake_news_features.
          and_then (getitem fake_news_data ''is_fake'') (\<lambda>fake_news_labels.
          Inr (fake_news_features, fake_news_labels))))),
          snd response))"

definition load_fake_news_training_data ::
  "(string list \<Rightarrow> string \<Rightarrow> py_error + string) \<Rightarrow> (string \<Rightarrow> py_error + dataframe)
     \<Rightarrow> string list \<Rightarrow> (py_error + dataframe \<times> cell list) \<times> string list" where
  "load_fake_news_training_data http read_json sent =
     load_fake_news_data http read_json ''fakenewsnet_modified_training_set.json'' sent"

definition load_fake_news_testing_data ::
  "(string list \<Rightarrow> string \<Rightarrow> py_error + string) \<Rightarrow> (string \<Rightarrow> py_error + dataframe)
     \<Rightarrow> string list \<Rightarrow> (py_error + dataframe \<times> cell list) \<times> string list" where
  "load_fake_news_testing_data http read_json sent =
     load_fake_news_data http read_json ''fakenewsnet_modified_testing_set.json'' sent"

subsection \<open>Evaluating the scikit-learn models\<close>

text \<open>
  \<^verbatim>\<open>
  def evaluate_sklearn_models(training_features, training_labels):
      models = [
          ("Logistic Regression", LogisticRegression(solver="lbfgs")),
          ("Linear Discriminant Analysis", LinearDiscriminantAnalysis()),
          ("K-Nearest Neighbors", KNeighborsClassifier()),
          ("Decision Tree", DecisionTreeClassifier()),
          ("Gaussian Naive Bayes", GaussianNB()),
          ("Support Vector Machine", SVC(gamma="scale")),
          ("Bagging Classifier", BaggingClassifier()),
          ("Random Forest Classifier", RandomForestClassifier(n_estimators=100))
      ]
      for name, model in models:
          kfold = model_selection.KFold(n_splits=10)
          cv_results = model_selection.cross_val_score(
              model, training_features, training_labels, cv=kfold, scoring="accuracy"
          )
          msg = "%s: \n\tAverage accuracy: %f \n\tStandard deviation: %f" % (
              name, cv_results.mean() * 100, cv_results.std() * 100
          )
          print(msg)
  \<close>
  A classifier is the constructor call that builds it. \<open>KFold\<close> is scikit-learn's
  constructor, whose \<open>shuffle\<close> is False unless the caller passes it. What
  \<^verbatim>\<open>cross_val_score\<close>, \<^verbatim>\<open>mean\<close> and \<^verbatim>\<open>std\<close> compute belongs to scikit-learn and numpy:
  they are the fields of the record \<open>sklearn\<close>. A printed message is the record of
  the three values that the format string receives; the function returns nothing, and
  the model returns the exception, if any, and the messages printed.
\<close>

datatype classifier =
    LogisticRegression string
  | LinearDiscriminantAnalysis
  | KNeighborsClassifier
  | DecisionTreeClassifier
  | GaussianNB
  | SVC string
  | BaggingClassifier
  | RandomForestClassifier nat

record kfold =
  n_splits :: nat
  shuffle :: bool

definition KFold :: "nat \<Rightarrow> kfold" where
  "KFold n = \<lparr>n_splits = n, shuffle = False\<rparr>"

record sklearn =
  cross_val_score :: "classifier \<Rightarrow> dataframe \<Rightarrow> cell list \<Rightarrow> kfold \<Rightarrow> string \<Rightarrow> py_error + rat list"
  array_mean :: "rat list \<Rightarrow> rat"
  array_std :: "rat list \<Rightarrow> rat"

record report =
  model_name :: string
  average_accuracy :: rat
  standard_deviation :: rat

definition models :: "(string \<times> classifier) list" where
  "models =
     [(''Logistic Regression'', LogisticRegression ''lbfgs''),
      (''Linear Discriminant Analysis'', LinearDiscriminantAnalysis),
      (''K-Nearest Neighbors'', KNeighborsClassifier),
      (''Decision Tree'', DecisionTreeClassifier),
      (''Gaussian Naive Bayes'', GaussianNB),
      (''Support Vector Machine'', SVC ''scale''),
      (''Bagging Classifier'', BaggingClassifier),
      (''Random Forest Classifier'', RandomForestClassifier 100)]"

fun evaluate_models_loop ::
  "'a sklearn_scheme \<Rightarrow> dataframe \<Rightarrow> cell list \<Rightarrow> (string \<times> classifier) list \<Rightarrow> report list
     \<Rightarrow> (py_error + unit) \<times> report list" where
  "evaluate_models_loop sk training_features training_labels [] printed = (Inr (), printed)"
| "evaluate_models_loop sk training_features training_labels ((name, model) # rest) printed =
     (case cross_val_score sk model training_features training_labels (KFold 10) ''accuracy'' of
        Inl e \<Rightarrow> (Inl e, printed)
      | Inr cv_results \<Rightarrow>
          evaluate_models_loop sk training_features training_labels rest
            (printed @ [\<lparr>model_name = name,
                          average_accuracy = float_mul (array_mean sk cv_results) 100,
                          standard_deviation = float_mul (array_std sk cv_results) 100\<rparr>]))"

definition evaluate_sklearn_models ::
  "'a sklearn_scheme \<Rightarrow> dataframe \<Rightarrow> cell list \<Rightarrow> (py_error + unit) \<times> report list" where
  "evaluate_sklearn_models sk training_features training_labels =
     evaluate_models_loop sk training_features training_labels models []"

text \<open>The message that the loop prints for one entry of the panel.\<close>

definition report_of ::
  "'a sklearn_scheme \<Rightarrow> dataframe \<Rightarrow> cell list \<Rightarrow> string \<times> classifier \<Rightarrow> report \<Rightarrow> bool" where
  "report_of sk training_features training_labels m r \<longleftrightarrow>
     (\<exists>cv_results.
        cross_val_score sk (snd m) training_features training_labels
          \<lparr>n_splits = 10, shuffle = False\<rparr> ''accuracy'' = Inr cv_results
      \<and> r = \<lparr>model_name = fst m,
             average_accuracy = float_mul (array_mean sk cv_results) 100,
             standard_deviation = float_mul (array_std sk cv_results) 100\<rparr>)"

subsection \<open>Training the neural network\<close>

text \<open>
  \<^verbatim>\<open>
  def train_neural_network(neural_network_model, training_features, training_labels):
      neural_network_model.fit(training_features.values, training_labels.values, epochs=400)
      return neural_network_model
  \<close>
  \<^verbatim>\<open>Model.fit\<close> belongs to Keras; it is the parameter \<open>fit\<close>, which receives the model
  and the arguments of the call and returns the trained model. The arguments that the
  call does not pass have the defaults of Keras' signature,
  \<^verbatim>\<open>fit(x, y, batch_size=None, epochs=1, callbacks=None, validation_split=0.0, validation_data=None, ...)\<close>.
  Keras documents \<^verbatim>\<open>batch_size\<close> as the number of samples per gradient update,
  32 when it is None.
\<close>

record fit_arguments =
  inputs :: "cell list list"
  targets :: "cell list"
  batch_size :: "nat option"
  epochs :: nat
  callbacks :: "string list"
  validation_split :: rat
  validation_data :: "(cell list list \<times> cell list) option"

definition keras_fit_defaults :: "cell list list \<Rightarrow> cell list \<Rightarrow> fit_arguments" where
  "keras_fit_defaults x y =
     \<lparr>inputs = x, targets = y, batch_size = None, epochs = 1, callbacks = [],
      validation_split = 0, validation_data = None\<rparr>"

definition keras_batch_size :: "fit_arguments \<Rightarrow> nat" where
  "keras_batch_size a = (case batch_size a of None \<Rightarrow> 32 | Some b \<Rightarrow> b)"

definition keras_updates_per_epoch :: "fit_arguments \<Rightarrow> nat" where
  "keras_updates_per_epoch a =
     (length (inputs a) + keras_batch_size a - 1) div keras_batch_size a"

definition train_neural_network ::
  "('m \<Rightarrow> fit_arguments \<Rightarrow> py_error + 'm) \<Rightarrow> 'm \<Rightarrow> dataframe \<Rightarrow> cell list \<Rightarrow> py_error + 'm" where
  "train_neural_network fit neural_network_model training_features training_labels =
     fit neural_network_model
       ((keras_fit_defaults (dataframe_values training_features) training_labels)\<lparr>epochs := 400\<rparr>)"

subsection \<open>Example inputs\<close>

text \<open>
  A stand-in for the text libraries, used where a theorem is run on a concrete input:
  words are counted by the blanks, difficult words by the letter x, and the sentiment
  of the article "calm" is the float 0.2 (polarity) and 0.0 (subjectivity), that of
  every other article the next float above 0.2, 0.20000000000000004, and 0.5.
\<close>

definition example_lib :: textlib where
  "example_lib =
     \<lparr>flesch_reading_ease = (\<lambda>article. 60),
      lexicon_count = (\<lambda>article. int (length (filter (\<lambda>c. c = CHR '' '') article))),
      difficult_words = (\<lambda>article. int (length (filter (\<lambda>c. c = CHR ''x'') article))),
      sentiment = (\<lambda>article.
        if article = ''calm'' then (3602879701896397 / 18014398509481984, 0)
        else (7205759403792795 / 36028797018963968, 1 / 2))\<rparr>"

text \<open>
  A frame of two articles with the columns of the dataset and one more numeric column,
  the frame that \<open>refine_fake_news_data\<close> returns for it when the clock shows
  1700000000, and a frame that has only creation dates.
\<close>

definition example_frame :: dataframe where
  "example_frame =
     \<lparr>index = [PyInt 0, PyInt 1],
      columns =
       [(''id'', [PyInt 7, PyInt 8]),
        (''news_url'', [PyStr ''a.example/1'', PyStr ''b.example/2'']),
        (''title'', [PyStr ''One'', PyStr ''Two'']),
        (''article_text'', [PyStr ''calm'', PyStr ''box it up now ok'']),
        (''country'', [PyStr ''US'', PyStr ''REDACTED FOR PRIVACY'']),
        (''creation_date'', [PyInt 850000000, PyFloat 1275000000]),
        (''tweets'', [PyInt 3, PyInt 0])]\<rparr>"

definition example_refined :: dataframe where
  "example_refined =
     \<lparr>index = [PyInt 0, PyInt 1],
      columns =
       [(''creation_date'', [PyFloat (1 / 2), PyFloat (3 / 4)]),
        (''tweets'', [PyInt 3, PyInt 0]),
        (''is_suspicious_country'', [PyInt 0, PyInt 1]),
        (''flesch_reading_ease'', [PyFloat 60, PyFloat 60]),
        (''percent_difficult_words'', [PyInt 0, PyFloat (1 / 4)]),
        (''article_polarity'',
         [PyFloat (5404319552844595 / 9007199254740992),
          PyFloat (5404319552844595 / 9007199254740992)]),
        (''article_subjectivity'', [PyFloat (1 / 2), PyFloat (3 / 4)])]\<rparr>"

definition example_dates :: dataframe where
  "example_dates =
     \<lparr>index = [PyInt 0, PyInt 1],
      columns = [(''creation_date'', [PyInt 850000000, PyFloat 1275000000])]\<rparr>"

text \<open>
  A labelled frame, a network that serves it as the training set, answers the request
  for the testing set with an error page and knows no other file, and a parser that
  reads the training set only.
\<close>

definition example_labelled :: dataframe where
  "example_labelled =
     \<lparr>index = [PyInt 0, PyInt 1],
      columns =
       [(''id'', [PyInt 7, PyInt 8]),
        (''is_fake'', [PyBool False, PyBool True]),
        (''tweets'', [PyInt 3, PyInt 0])]\<rparr>"

definition example_http :: "string list \<Rightarrow> string \<Rightarrow> py_error + string" where
  "example_http sent url =
     (if url = base_url @ ''fakenewsnet_modified_training_set.json''
      then Inr ''<the training set>''
      else if url = base_url @ ''fakenewsnet_modified_testing_set.json''
      then Inr ''404: Not Found''
      else Inl (LibraryError ''ConnectionError''))"

definition example_read_json :: "string \<Rightarrow> py_error + dataframe" where
  "example_read_json json_data =
     (if json_data = ''<the training set>''
      then Inr example_labelled
      else Inl ValueError)"

text \<open>
  Ten training rows with five labels of each kind; a stand-in for scikit-learn that
  refuses a frame with fewer rows than folds and otherwise returns one score per fold;
  a stand-in for \<^verbatim>\<open>Model.fit\<close> that returns the arguments of the call; and a frame
  of 350 articles.
\<close>

definition example_training :: dataframe where
  "example_training =
     \<lparr>index = map (\<lambda>i. PyInt (int i)) [0..<10],
      columns = [(''tweets'', map PyInt [9, 8, 7, 8, 9, 1, 2, 0, 1, 2])]\<rparr>"

definition example_training_labels :: "cell list" where
  "example_training_labels = map PyBool
     [False, False, False, False, False, True, True, True, True, True]"

definition example_sklearn :: sklearn where
  "example_sklearn =
     \<lparr>cross_val_score = (\<lambda>model X y cv scoring.
        if length (index X) < n_splits cv then Inl ValueError
        else Inr (replicate (n_splits cv) (if model = GaussianNB then 1 / 2 else 1))),
      array_mean = (\<lambda>xs. sum_list xs / of_nat (length xs)),
      array_std = (\<lambda>xs. 0)\<rparr>"

definition recording_fit :: "fit_arguments \<Rightarrow> fit_arguments \<Rightarrow> py_error + fit_arguments" where
  "recording_fit model call = Inr call"

definition example_articles :: dataframe where
  "example_articles =
     \<lparr>index = map (\<lambda>i. PyInt (int i)) [0..<350],
      columns = [(''tweets'', replicate 350 (PyInt 1))]\<rparr>"

section \<open>Properties\<close>

subsection \<open>Strings\<close>

lemma startswith_iff: "startswith hay needle \<longleftrightarrow> (\<exists>s. hay = needle @ s)"
  by (induction hay needle rule: startswith.induct) auto

lemma str_contains_iff: "str_contains hay needle \<longleftrightarrow> (\<exists>p s. hay = p @ needle @ s)"
proof (induction hay)
  case Nil
  then show ?case by auto
next
  case (Cons h hs)
  have "(\<exists>p s. h # hs = p @ needle @ s) \<longleftrightarrow>
        (\<exists>s. h # hs = needle @ s) \<or> (\<exists>p s. hs = p @ needle @ s)"
  proof
    assume "\<exists>p s. h # hs = p @ needle @ s"
    then obtain p s where eq: "h # hs = p @ needle @ s" by blast
    show "(\<exists>s. h # hs = needle @ s) \<or> (\<exists>p s. hs = p @ needle @ s)"
    proof (cases p)
      case Nil
      with eq show ?thesis by auto
    next
      case (Cons a p')
      with eq have "hs = p' @ needle @ s" by simp
      then show ?thesis by blast
    qed
  next
    assume "(\<exists>s. h # hs = needle @ s) \<or> (\<exists>p s. hs = p @ needle @ s)"
    then show "\<exists>p s. h # hs = p @ needle @ s"
    proof
      assume "\<exists>s. h # hs = needle @ s"
      then obtain s where "h # hs = [] @ needle @ s" by auto
      then show ?thesis by blast
    next
      assume "\<exists>p s. hs = p @ needle @ s"
      then obtain p s where "hs = p @ needle @ s" by blast
      then have "h # hs = (h # p) @ needle @ s" by simp
      then show ?thesis by blast
    qed
  qed
  with Cons show ?case by (simp add: startswith_iff)
qed

subsection \<open>Rounding to binary64\<close>

text \<open>Rounding to the nearest integer is monotone, fixes the integers and commutes
  with negation.\<close>

lemma round_half_even_of_int: "round_half_even (of_int n) = n"
  by (simp add: round_half_even_def)

lemma round_half_even_cases: "round_half_even t = \<lfloor>t\<rfloor> \<or> round_half_even t = \<lfloor>t\<rfloor> + 1"
  by (simp add: round_half_even_def Let_def)

lemma round_half_even_mono:
  assumes "s \<le> t"
  shows "round_half_even s \<le> round_half_even t"
proof -
  have le: "\<lfloor>s\<rfloor> \<le> \<lfloor>t\<rfloor>" using assms by (rule floor_mono)
  show ?thesis
  proof (cases "\<lfloor>s\<rfloor> = \<lfloor>t\<rfloor>")
    case True
    then show ?thesis
      using assms by (auto simp add: round_half_even_def Let_def)
  next
    case False
    with le have "\<lfloor>s\<rfloor> + 1 \<le> \<lfloor>t\<rfloor>" by simp
    moreover have "round_half_even s \<le> \<lfloor>s\<rfloor> + 1"
      using round_half_even_cases [of s] by auto
    moreover have "\<lfloor>t\<rfloor> \<le> round_half_even t"
      using round_half_even_cases [of t] by auto
    ultimately show ?thesis by linarith
  qed
qed

lemma round_half_even_uminus: "round_half_even (- t) = - round_half_even t"
proof (cases "t \<in> \<int>")
  case True
  then obtain n where "t = of_int n" by (auto elim: Ints_cases)
  then show ?thesis
    using round_half_even_of_int [of "- n"] round_half_even_of_int [of n] by simp
next
  case False
  then have ne: "of_int \<lfloor>t\<rfloor> \<noteq> t"
    by (metis Ints_of_int)
  have "of_int \<lfloor>t\<rfloor> < t"
    using ne of_int_floor_le [of t] by (metis less_le)
  moreover have "t < of_int \<lfloor>t\<rfloor> + 1"
    by linarith
  ultimately have "of_int (- \<lfloor>t\<rfloor> - 1) \<le> - t" "- t < of_int (- \<lfloor>t\<rfloor> - 1) + 1"
    by simp_all
  then have fl: "\<lfloor>- t\<rfloor> = - \<lfloor>t\<rfloor> - 1"
    by (rule floor_unique)
  show ?thesis
    unfolding round_half_even_def Let_def fl
    by (auto simp add: algebra_simps)
qed

lemma floor_log2_ge_one:
  assumes "1 \<le> x"
  shows "2 powi floor_log2 x \<le> x" and "x < 2 powi (floor_log2 x + 1)"
proof -
  define n where "n = \<lfloor>x\<rfloor>"
  have n: "0 < n" using assms by (simp add: n_def)
  have e: "floor_log2 x = bitlen n - 1" using assms by (simp add: floor_log2_def n_def)
  have b: "2 ^ nat (bitlen n - 1) \<le> n" "n < 2 ^ nat (bitlen n)"
    using bitlen_bounds [OF n] by simp_all
  have "bitlen n \<noteq> 0" using n by (simp add: bitlen_eq_zero_iff)
  with bitlen_nonneg [of n] have pos: "0 < bitlen n" by linarith
  have "(2::rat) powi (bitlen n - 1) = 2 ^ nat (bitlen n - 1)"
    using pos by (simp add: power_int_def)
  also have "\<dots> = of_int (2 ^ nat (bitlen n - 1))" by simp
  also have "\<dots> \<le> of_int n" using b(1) by (simp only: of_int_le_iff)
  also have "\<dots> \<le> x" by (simp add: n_def)
  finally show "2 powi floor_log2 x \<le> x" by (simp add: e)
  have "x < of_int (n + 1)" unfolding n_def by simp linarith
  also have "\<dots> \<le> of_int (2 ^ nat (bitlen n))"
    using b(2) by (simp only: of_int_le_iff)
  also have "\<dots> = (2::rat) powi (bitlen n)"
    using pos by (simp add: power_int_def)
  finally show "x < 2 powi (floor_log2 x + 1)" by (simp add: e)
qed

lemma floor_log2_lt_one:
  assumes "0 < x" and "x < 1"
  shows "2 powi floor_log2 x \<le> x" and "x < 2 powi (floor_log2 x + 1)"
proof -
  define m where "m = \<lceil>1 / x\<rceil> - 1"
  have y: "1 < 1 / x" using assms by simp
  then have "1 < \<lceil>1 / x\<rceil>" by (simp add: less_ceiling_iff)
  then have m: "0 < m" by (simp add: m_def)
  have e: "floor_log2 x = - bitlen m" using assms by (simp add: floor_log2_def m_def)
  have b: "2 ^ nat (bitlen m - 1) \<le> m" "m < 2 ^ nat (bitlen m)"
    using bitlen_bounds [OF m] by simp_all
  have "bitlen m \<noteq> 0" using m by (simp add: bitlen_eq_zero_iff)
  with bitlen_nonneg [of m] have pos: "0 < bitlen m" by linarith
  have "1 / x \<le> of_int (m + 1)" by (simp add: m_def)
  also have "\<dots> \<le> of_int (2 ^ nat (bitlen m))"
    using b(2) by (simp only: of_int_le_iff)
  also have "\<dots> = (2::rat) ^ nat (bitlen m)" by simp
  finally have "1 / x \<le> 2 ^ nat (bitlen m)" .
  then have "1 / 2 ^ nat (bitlen m) \<le> x"
    using assms(1) by (simp add: field_simps)
  moreover have "(2::rat) powi (- bitlen m) = 1 / 2 ^ nat (bitlen m)"
    using pos by (simp add: power_int_def field_simps)
  ultimately show "2 powi floor_log2 x \<le> x" by (simp add: e)
  have "(2::rat) ^ nat (bitlen m - 1) = of_int (2 ^ nat (bitlen m - 1))" by simp
  also have "\<dots> \<le> of_int m" using b(1) by (simp only: of_int_le_iff)
  also have "\<dots> < 1 / x" unfolding m_def by linarith
  finally have "(2::rat) ^ nat (bitlen m - 1) < 1 / x" .
  then have "x < 1 / 2 ^ nat (bitlen m - 1)"
    using assms(1) by (simp add: field_simps)
  moreover have "(2::rat) powi (- bitlen m + 1) = 1 / 2 ^ nat (bitlen m - 1)"
  proof -
    have "- bitlen m + 1 = - int (nat (bitlen m - 1))" using pos by simp
    then show ?thesis by (simp only: power_int_minus power_int_of_nat) (simp add: field_simps)
  qed
  ultimately show "x < 2 powi (floor_log2 x + 1)" by (simp add: e)
qed

lemma floor_log2_bounds:
  assumes "0 < x"
  shows "2 powi floor_log2 x \<le> x" and "x < 2 powi (floor_log2 x + 1)"
  using assms floor_log2_ge_one [of x] floor_log2_lt_one [of x]
  by (cases "1 \<le> x"; simp)+

lemma floor_log2_mono:
  assumes "0 < x" and "x \<le> y"
  shows "floor_log2 x \<le> floor_log2 y"
proof (rule ccontr)
  assume "\<not> floor_log2 x \<le> floor_log2 y"
  then have "floor_log2 y + 1 \<le> floor_log2 x" by simp
  then have "(2::rat) powi (floor_log2 y + 1) \<le> 2 powi floor_log2 x"
    by (rule power_int_increasing) simp
  moreover have "y < 2 powi (floor_log2 y + 1)"
    using assms by (intro floor_log2_bounds) simp
  moreover have "2 powi floor_log2 x \<le> x"
    using assms by (intro floor_log2_bounds)
  ultimately show False using assms(2) by linarith
qed


lemma two_powi_pos: "0 < (2::rat) powi q"
  by simp

lemma two_powi_nonneg: "0 \<le> (2::rat) powi q"
  by simp

lemma two_powi_split:
  assumes "q \<le> e"
  shows "(2::rat) powi e = of_int (2 ^ nat (e - q)) * 2 powi q"
proof -
  have "(2::rat) powi e = 2 powi ((e - q) + q)" by simp
  also have "\<dots> = 2 powi (e - q) * 2 powi q"
    by (rule power_int_add) simp
  also have "(2::rat) powi (e - q) = 2 ^ nat (e - q)"
    using assms by (simp add: power_int_def)
  finally show ?thesis by simp
qed

lemma round_to_quantum_le:
  assumes "x \<le> of_int n * 2 powi q"
  shows "of_int (round_half_even (x / 2 powi q)) * 2 powi q \<le> of_int n * (2::rat) powi q"
proof -
  have "x / 2 powi q \<le> of_int n"
    using assms two_powi_pos [of q] by (simp add: pos_divide_le_eq)
  then have "round_half_even (x / 2 powi q) \<le> n"
    using round_half_even_mono [of "x / 2 powi q" "of_int n"]
    by (simp add: round_half_even_of_int)
  then have "(of_int (round_half_even (x / 2 powi q)) :: rat) \<le> of_int n"
    by (simp only: of_int_le_iff)
  then show ?thesis
    using two_powi_nonneg by (rule mult_right_mono)
qed

lemma round_to_quantum_ge:
  assumes "of_int n * 2 powi q \<le> x"
  shows "of_int n * (2::rat) powi q \<le> of_int (round_half_even (x / 2 powi q)) * 2 powi q"
proof -
  have "of_int n \<le> x / 2 powi q"
    using assms two_powi_pos [of q] by (simp add: pos_le_divide_eq)
  then have "n \<le> round_half_even (x / 2 powi q)"
    using round_half_even_mono [of "of_int n" "x / 2 powi q"]
    by (simp add: round_half_even_of_int)
  then have "(of_int n :: rat) \<le> of_int (round_half_even (x / 2 powi q))"
    by (simp only: of_int_le_iff)
  then show ?thesis
    using two_powi_nonneg by (rule mult_right_mono)
qed

lemma round_binary64_mono_pos:
  assumes "0 < x" and "x \<le> y"
  shows "round_binary64 x \<le> round_binary64 y"
proof -
  have y: "0 < y" using assms by simp
  define qx where "qx = quantum_exp x"
  define qy where "qy = quantum_exp y"
  have rx: "round_binary64 x = of_int (round_half_even (x / 2 powi qx)) * 2 powi qx"
    using assms(1) by (simp add: round_binary64_def qx_def)
  have ry: "round_binary64 y = of_int (round_half_even (y / 2 powi qy)) * 2 powi qy"
    using y by (simp add: round_binary64_def qy_def)
  have elog: "floor_log2 x \<le> floor_log2 y"
    using assms by (rule floor_log2_mono)
  then have qle: "qx \<le> qy"
    using assms(1) y by (simp add: qx_def qy_def quantum_exp_def)
  show ?thesis
  proof (cases "qx = qy")
    case True
    have "x / 2 powi qy \<le> y / 2 powi qy"
      using assms(2) two_powi_nonneg by (rule divide_right_mono)
    then have "round_half_even (x / 2 powi qy) \<le> round_half_even (y / 2 powi qy)"
      by (rule round_half_even_mono)
    then have "(of_int (round_half_even (x / 2 powi qy)) :: rat)
        \<le> of_int (round_half_even (y / 2 powi qy))"
      by (simp only: of_int_le_iff)
    then have "of_int (round_half_even (x / 2 powi qy)) * (2::rat) powi qy
        \<le> of_int (round_half_even (y / 2 powi qy)) * 2 powi qy"
      using two_powi_nonneg by (rule mult_right_mono)
    then show ?thesis
      by (simp add: rx ry True)
  next
    case False
    with qle have lt: "qx < qy" by simp
    define ey where "ey = floor_log2 y"
    have qy_eq: "qy = ey - 52"
      using lt y assms(1) by (simp add: qx_def qy_def quantum_exp_def ey_def max_def split: if_splits)
    have "floor_log2 x - 52 \<le> qx"
      using assms(1) by (simp add: qx_def quantum_exp_def)
    with lt qy_eq have ex: "floor_log2 x + 1 \<le> ey" by simp
    have "x < 2 powi (floor_log2 x + 1)"
      using assms(1) by (rule floor_log2_bounds)
    also have "\<dots> \<le> 2 powi ey"
      using ex by (rule power_int_increasing) simp
    finally have xB: "x \<le> 2 powi ey" by simp
    have By: "2 powi ey \<le> y"
      unfolding ey_def using y by (rule floor_log2_bounds)
    have "qx \<le> ey" using lt qy_eq by simp
    then have Bx: "(2::rat) powi ey = of_int (2 ^ nat (ey - qx)) * 2 powi qx"
      by (rule two_powi_split)
    have "qy \<le> ey" using qy_eq by simp
    then have Bq: "(2::rat) powi ey = of_int (2 ^ nat (ey - qy)) * 2 powi qy"
      by (rule two_powi_split)
    have "round_binary64 x \<le> 2 powi ey"
      unfolding rx using round_to_quantum_le [of x "2 ^ nat (ey - qx)" qx] xB Bx by simp
    moreover have "2 powi ey \<le> round_binary64 y"
      unfolding ry using round_to_quantum_ge [of "2 ^ nat (ey - qy)" qy y] By Bq by simp
    ultimately show ?thesis by simp
  qed
qed

lemma round_binary64_zero: "round_binary64 0 = 0"
  by (simp add: round_binary64_def)

lemma round_binary64_nonneg:
  assumes "0 \<le> x"
  shows "0 \<le> round_binary64 x"
proof (cases "x = 0")
  case True
  then show ?thesis by (simp add: round_binary64_zero)
next
  case False
  have "of_int 0 * 2 powi quantum_exp x \<le> x" using assms by simp
  then have "of_int 0 * (2::rat) powi quantum_exp x
      \<le> of_int (round_half_even (x / 2 powi quantum_exp x)) * 2 powi quantum_exp x"
    by (rule round_to_quantum_ge)
  with False show ?thesis by (simp add: round_binary64_def)
qed

lemma round_binary64_uminus: "round_binary64 (- x) = - round_binary64 x"
  by (simp add: round_binary64_def quantum_exp_def round_half_even_uminus)

lemma round_binary64_mono:
  assumes "x \<le> y"
  shows "round_binary64 x \<le> round_binary64 y"
proof -
  consider "0 < x" | "x \<le> 0" "0 \<le> y" | "y < 0" by linarith
  then show ?thesis
  proof cases
    case 1
    then show ?thesis using assms by (rule round_binary64_mono_pos)
  next
    case 2
    have "0 \<le> round_binary64 (- x)" using 2(1) by (intro round_binary64_nonneg) simp
    then have "round_binary64 x \<le> 0" by (simp add: round_binary64_uminus)
    moreover have "0 \<le> round_binary64 y" using 2(2) by (rule round_binary64_nonneg)
    ultimately show ?thesis by simp
  next
    case 3
    have "round_binary64 (- y) \<le> round_binary64 (- x)"
      using 3 assms by (intro round_binary64_mono_pos) simp_all
    then show ?thesis by (simp add: round_binary64_uminus)
  qed
qed

subsection \<open>Exceptions, series and frames\<close>

lemma and_then_Inr [simp]: "and_then (Inr a) f = f a"
  by (simp add: and_then_def)

lemma and_then_Inl [simp]: "and_then (Inl e) f = Inl e"
  by (simp add: and_then_def)

lemma and_then_eq_Inr: "and_then m f = Inr b \<longleftrightarrow> (\<exists>a. m = Inr a \<and> f a = Inr b)"
  by (cases m) simp_all

lemma series_apply_eq_Inr:
  "series_apply f xs = Inr ys \<longleftrightarrow> list_all2 (\<lambda>x y. f x = Inr y) xs ys"
proof (induction xs arbitrary: ys)
  case Nil
  then show ?case by auto
next
  case (Cons x xs)
  show ?case
    by (cases ys) (auto simp add: and_then_eq_Inr Cons.IH list_all2_Cons1)
qed

lemma getitem_eq_Inr: "getitem df name = Inr xs \<longleftrightarrow> map_of (columns df) name = Some xs"
  by (simp add: getitem_def split: option.splits)

lemma getitem_missing: "name \<notin> column_names df \<Longrightarrow> getitem df name = Inl (KeyError [name])"
  by (simp add: getitem_def column_names_def map_of_eq_None_iff [THEN iffD2])

lemma getitem_present: "name \<in> column_names df \<longleftrightarrow> (\<exists>xs. getitem df name = Inr xs)"
proof -
  have "name \<in> column_names df \<longleftrightarrow> map_of (columns df) name \<noteq> None"
    by (simp add: column_names_def map_of_eq_None_iff)
  then show ?thesis by (auto simp add: getitem_def split: option.splits)
qed

lemma setitem_eq_Inr:
  "setitem df name xs = Inr out \<longleftrightarrow>
     length xs = length (index df) \<and> out = df\<lparr>columns := AList.update name xs (columns df)\<rparr>"
  by (auto simp add: setitem_def)

lemma getitem_update:
  "getitem (df\<lparr>columns := AList.update name xs (columns df)\<rparr>) other =
     (if other = name then Inr xs else getitem df other)"
  by (simp add: getitem_def update_conv')

lemma column_names_update:
  "column_names (df\<lparr>columns := AList.update name xs (columns df)\<rparr>) =
     insert name (column_names df)"
  by (simp add: column_names_def dom_update)

lemma map_of_filter_fst:
  "map_of (filter (\<lambda>c. fst c \<notin> S) al) k = (if k \<in> S then None else map_of al k)"
  by (induction al) auto

lemma drop_columns_eq_Inr:
  "drop_columns names df = Inr out \<longleftrightarrow>
     set names \<subseteq> column_names df \<and>
     out = df\<lparr>columns := filter (\<lambda>c. fst c \<notin> set names) (columns df)\<rparr>"
  by (auto simp add: drop_columns_def Let_def filter_empty_conv)

lemma getitem_filter:
  "getitem (df\<lparr>columns := filter (\<lambda>c. fst c \<notin> S) (columns df)\<rparr>) other =
     (if other \<in> S then Inl (KeyError [other]) else getitem df other)"
  by (simp add: getitem_def map_of_filter_fst)

lemma column_names_filter:
  "column_names (df\<lparr>columns := filter (\<lambda>c. fst c \<notin> S) (columns df)\<rparr>) = column_names df - S"
  by (auto simp add: column_names_def)

lemma getitem_reset_index [simp]: "getitem (reset_index df) name = getitem df name"
  by (simp add: getitem_def reset_index_def)

lemma column_names_reset_index [simp]: "column_names (reset_index df) = column_names df"
  by (simp add: column_names_def reset_index_def)

lemma length_index_reset_index [simp]: "length (index (reset_index df)) = length (index df)"
  by (simp add: reset_index_def)


lemma add_suspicious_country_column_eq_Inr:
  "add_suspicious_country_column df = Inr out \<longleftrightarrow>
     (\<exists>country flags. getitem df ''country'' = Inr country
        \<and> list_all2 (\<lambda>x y. is_suspicious_country x = Inr y) country flags
        \<and> length flags = length (index df)
        \<and> out = df\<lparr>columns := AList.update ''is_suspicious_country'' flags (columns df)\<rparr>)"
  unfolding add_suspicious_country_column_def and_then_eq_Inr series_apply_eq_Inr setitem_eq_Inr
  by blast

lemma add_flesch_reading_ease_column_eq_Inr:
  "add_flesch_reading_ease_column lib df = Inr out \<longleftrightarrow>
     (\<exists>article_text scores. getitem df ''article_text'' = Inr article_text
        \<and> list_all2 (\<lambda>x y. text_flesch_reading_ease lib x = Inr y) article_text scores
        \<and> length scores = length (index df)
        \<and> out = df\<lparr>columns := AList.update ''flesch_reading_ease'' scores (columns df)\<rparr>)"
  unfolding add_flesch_reading_ease_column_def and_then_eq_Inr series_apply_eq_Inr setitem_eq_Inr
  by blast

lemma add_percent_difficult_words_column_eq_Inr:
  "add_percent_difficult_words_column lib df = Inr out \<longleftrightarrow>
     (\<exists>article_text ratios. getitem df ''article_text'' = Inr article_text
        \<and> list_all2 (\<lambda>x y. percent_difficult_words lib x = Inr y) article_text ratios
        \<and> length ratios = length (index df)
        \<and> out = df\<lparr>columns := AList.update ''percent_difficult_words'' ratios (columns df)\<rparr>)"
  unfolding add_percent_difficult_words_column_def and_then_eq_Inr series_apply_eq_Inr setitem_eq_Inr
  by blast

lemma unzip_pairs_eq_Inr:
  "unzip_pairs pairs = Inr u \<longleftrightarrow>
     pairs \<noteq> [] \<and> u = (map (\<lambda>p. PyFloat (fst p)) pairs, map (\<lambda>p. PyFloat (snd p)) pairs)"
  by (auto simp add: unzip_pairs_def)

lemma add_sentiment_columns_eq_Inr:
  "add_sentiment_columns lib df = Inr out \<longleftrightarrow>
     (\<exists>article_text pairs. getitem df ''article_text'' = Inr article_text
        \<and> list_all2 (\<lambda>x y. analyze_sentiment lib x = Inr y) article_text pairs
        \<and> pairs \<noteq> []
        \<and> length pairs = length (index df)
        \<and> out = df\<lparr>columns :=
             AList.update ''article_subjectivity'' (map (\<lambda>p. PyFloat (snd p)) pairs)
               (AList.update ''article_polarity'' (map (\<lambda>p. PyFloat (fst p)) pairs) (columns df))\<rparr>)"
  unfolding add_sentiment_columns_def and_then_eq_Inr series_apply_eq_Inr setitem_eq_Inr
    unzip_pairs_eq_Inr
  by auto

lemma drop_features_eq_Inr:
  "drop_features df = Inr out \<longleftrightarrow>
     set dropped_columns \<subseteq> column_names df \<and>
     out = \<lparr>index = map (\<lambda>i. PyInt (int i)) [0..<length (index df)],
            columns = filter (\<lambda>c. fst c \<notin> set dropped_columns) (columns df)\<rparr>"
  unfolding drop_features_def and_then_eq_Inr drop_columns_eq_Inr
  by (auto simp add: reset_index_def)

lemma scale_creation_dates_eq_Inr:
  "scale_creation_dates now df = Inr out \<longleftrightarrow>
     (\<exists>creation_date scaled. getitem df ''creation_date'' = Inr creation_date
        \<and> list_all2 (\<lambda>x y. timestamp_div now x = Inr y) creation_date scaled
        \<and> length scaled = length (index df)
        \<and> out = df\<lparr>columns := AList.update ''creation_date'' scaled (columns df)\<rparr>)"
  unfolding scale_creation_dates_def and_then_eq_Inr series_apply_eq_Inr setitem_eq_Inr
  by blast


lemma add_features_eq_Inr:
  "add_features lib df = Inr out \<longleftrightarrow>
     (\<exists>country article_text flags scores ratios pairs.
        getitem df ''country'' = Inr country
        \<and> getitem df ''article_text'' = Inr article_text
        \<and> list_all2 (\<lambda>x y. is_suspicious_country x = Inr y) country flags
        \<and> list_all2 (\<lambda>x y. text_flesch_reading_ease lib x = Inr y) article_text scores
        \<and> list_all2 (\<lambda>x y. percent_difficult_words lib x = Inr y) article_text ratios
        \<and> list_all2 (\<lambda>x y. analyze_sentiment lib x = Inr y) article_text pairs
        \<and> length country = length (index df)
        \<and> length article_text = length (index df)
        \<and> index df \<noteq> []
        \<and> out = df\<lparr>columns :=
             AList.update ''article_subjectivity'' (map (\<lambda>p. PyFloat (snd p)) pairs)
              (AList.update ''article_polarity'' (map (\<lambda>p. PyFloat (fst p)) pairs)
                (AList.update ''percent_difficult_words'' ratios
                  (AList.update ''flesch_reading_ease'' scores
                    (AList.update ''is_suspicious_country'' flags (columns df)))))\<rparr>)"
  (is "?lhs \<longleftrightarrow> ?rhs")
proof
  assume ?lhs
  then obtain df1 df2 df3 where
    s1: "add_suspicious_country_column df = Inr df1" and
    s2: "add_flesch_reading_ease_column lib df1 = Inr df2" and
    s3: "add_percent_difficult_words_column lib df2 = Inr df3" and
    s4: "add_sentiment_columns lib df3 = Inr out"
    unfolding add_features_def and_then_eq_Inr by blast
  from s1 obtain country flags where
    c: "getitem df ''country'' = Inr country"
    "list_all2 (\<lambda>x y. is_suspicious_country x = Inr y) country flags"
    "length flags = length (index df)"
    and df1: "df1 = df\<lparr>columns := AList.update ''is_suspicious_country'' flags (columns df)\<rparr>"
    unfolding add_suspicious_country_column_eq_Inr by blast
  from s2 obtain text2 scores where
    t2: "getitem df1 ''article_text'' = Inr text2"
    "list_all2 (\<lambda>x y. text_flesch_reading_ease lib x = Inr y) text2 scores"
    "length scores = length (index df1)"
    and df2: "df2 = df1\<lparr>columns := AList.update ''flesch_reading_ease'' scores (columns df1)\<rparr>"
    unfolding add_flesch_reading_ease_column_eq_Inr by blast
  from s3 obtain text3 ratios where
    t3: "getitem df2 ''article_text'' = Inr text3"
    "list_all2 (\<lambda>x y. percent_difficult_words lib x = Inr y) text3 ratios"
    "length ratios = length (index df2)"
    and df3: "df3 = df2\<lparr>columns := AList.update ''percent_difficult_words'' ratios (columns df2)\<rparr>"
    unfolding add_percent_difficult_words_column_eq_Inr by blast
  from s4 obtain text4 pairs where
    t4: "getitem df3 ''article_text'' = Inr text4"
    "list_all2 (\<lambda>x y. analyze_sentiment lib x = Inr y) text4 pairs"
    "pairs \<noteq> []" "length pairs = length (index df3)"
    and out: "out = df3\<lparr>columns :=
       AList.update ''article_subjectivity'' (map (\<lambda>p. PyFloat (snd p)) pairs)
         (AList.update ''article_polarity'' (map (\<lambda>p. PyFloat (fst p)) pairs) (columns df3))\<rparr>"
    unfolding add_sentiment_columns_eq_Inr by blast
  have art: "getitem df ''article_text'' = Inr text2" "text3 = text2" "text4 = text2"
    using t2(1) t3(1) t4(1)
    by (simp_all add: df1 df2 df3 getitem_def update_conv' split: option.splits)
  have len: "length country = length (index df)" "length text2 = length (index df)"
    "index df \<noteq> []"
    using c t2 t3 t4 by (auto simp add: df1 df2 df3 art dest: list_all2_lengthD)
  show ?rhs
    using c t2 t3 t4 art len by (auto simp add: out df3 df2 df1)
next
  assume ?rhs
  then obtain country article_text flags scores ratios pairs where
    h: "getitem df ''country'' = Inr country"
      "getitem df ''article_text'' = Inr article_text"
      "list_all2 (\<lambda>x y. is_suspicious_country x = Inr y) country flags"
      "list_all2 (\<lambda>x y. text_flesch_reading_ease lib x = Inr y) article_text scores"
      "list_all2 (\<lambda>x y. percent_difficult_words lib x = Inr y) article_text ratios"
      "list_all2 (\<lambda>x y. analyze_sentiment lib x = Inr y) article_text pairs"
      "length country = length (index df)"
      "length article_text = length (index df)"
      "index df \<noteq> []"
    and out: "out = df\<lparr>columns :=
             AList.update ''article_subjectivity'' (map (\<lambda>p. PyFloat (snd p)) pairs)
              (AList.update ''article_polarity'' (map (\<lambda>p. PyFloat (fst p)) pairs)
                (AList.update ''percent_difficult_words'' ratios
                  (AList.update ''flesch_reading_ease'' scores
                    (AList.update ''is_suspicious_country'' flags (columns df)))))\<rparr>"
    by blast
  define df1 where "df1 = df\<lparr>columns := AList.update ''is_suspicious_country'' flags (columns df)\<rparr>"
  define df2 where "df2 = df1\<lparr>columns := AList.update ''flesch_reading_ease'' scores (columns df1)\<rparr>"
  define df3 where "df3 = df2\<lparr>columns := AList.update ''percent_difficult_words'' ratios (columns df2)\<rparr>"
  have lens: "length flags = length (index df)" "length scores = length (index df)"
    "length ratios = length (index df)" "length pairs = length (index df)" "pairs \<noteq> []"
    using h by (auto dest: list_all2_lengthD)
  have s1: "add_suspicious_country_column df = Inr df1"
    unfolding add_suspicious_country_column_eq_Inr using h lens by (auto simp add: df1_def)
  have "getitem df1 ''article_text'' = Inr article_text"
    using h(2) by (simp add: df1_def getitem_def update_conv')
  then have s2: "add_flesch_reading_ease_column lib df1 = Inr df2"
    unfolding add_flesch_reading_ease_column_eq_Inr using h lens
    by (auto simp add: df2_def df1_def)
  have "getitem df2 ''article_text'' = Inr article_text"
    using h(2) by (simp add: df2_def df1_def getitem_def update_conv')
  then have s3: "add_percent_difficult_words_column lib df2 = Inr df3"
    unfolding add_percent_difficult_words_column_eq_Inr using h lens
    by (auto simp add: df3_def df2_def df1_def)
  have "getitem df3 ''article_text'' = Inr article_text"
    using h(2) by (simp add: df3_def df2_def df1_def getitem_def update_conv')
  then have s4: "add_sentiment_columns lib df3 = Inr out"
    unfolding add_sentiment_columns_eq_Inr using h lens
    by (auto simp add: out df3_def df2_def df1_def)
  show ?lhs
    unfolding add_features_def and_then_eq_Inr using s1 s2 s3 s4 by blast
qed


lemma column_names_added:
  "column_names (df\<lparr>columns :=
             AList.update ''article_subjectivity'' v5
              (AList.update ''article_polarity'' v4
                (AList.update ''percent_difficult_words'' v3
                  (AList.update ''flesch_reading_ease'' v2
                    (AList.update ''is_suspicious_country'' v1 (columns df)))))\<rparr>)
   = column_names df \<union> set derived_columns"
  by (auto simp add: column_names_def dom_update derived_columns_def)

lemma creation_date_not_dropped: "''creation_date'' \<notin> set dropped_columns"
  by (simp add: dropped_columns_def)

lemma dropped_not_derived: "set dropped_columns \<inter> set derived_columns = {}"
  by (simp add: dropped_columns_def derived_columns_def)

lemma refine_fake_news_data_eq_Inr:
  "refine_fake_news_data lib now df = Inr out \<longleftrightarrow>
     (\<exists>country article_text creation_date flags scores ratios pairs scaled.
        getitem df ''country'' = Inr country
        \<and> getitem df ''article_text'' = Inr article_text
        \<and> getitem df ''creation_date'' = Inr creation_date
        \<and> list_all2 (\<lambda>x y. is_suspicious_country x = Inr y) country flags
        \<and> list_all2 (\<lambda>x y. text_flesch_reading_ease lib x = Inr y) article_text scores
        \<and> list_all2 (\<lambda>x y. percent_difficult_words lib x = Inr y) article_text ratios
        \<and> list_all2 (\<lambda>x y. analyze_sentiment lib x = Inr y) article_text pairs
        \<and> list_all2 (\<lambda>x y. timestamp_div now x = Inr y) creation_date scaled
        \<and> length country = length (index df)
        \<and> length article_text = length (index df)
        \<and> length creation_date = length (index df)
        \<and> index df \<noteq> []
        \<and> set dropped_columns \<subseteq> column_names df
        \<and> out = \<lparr>index = map (\<lambda>i. PyInt (int i)) [0..<length (index df)],
             columns = AList.update ''creation_date'' scaled
              (filter (\<lambda>c. fst c \<notin> set dropped_columns)
               (AList.update ''article_subjectivity'' (map (\<lambda>p. PyFloat (snd p)) pairs)
                (AList.update ''article_polarity'' (map (\<lambda>p. PyFloat (fst p)) pairs)
                 (AList.update ''percent_difficult_words'' ratios
                  (AList.update ''flesch_reading_ease'' scores
                   (AList.update ''is_suspicious_country'' flags (columns df)))))))\<rparr>)"
  (is "?lhs \<longleftrightarrow> ?rhs")
proof
  assume ?lhs
  then obtain df1 df2 where
    s1: "add_features lib df = Inr df1" and
    s2: "drop_features df1 = Inr df2" and
    s3: "scale_creation_dates now df2 = Inr out"
    unfolding refine_fake_news_data_def scale_features_def and_then_eq_Inr by blast
  from s1 obtain country article_text flags scores ratios pairs where
    a: "getitem df ''country'' = Inr country"
      "getitem df ''article_text'' = Inr article_text"
      "list_all2 (\<lambda>x y. is_suspicious_country x = Inr y) country flags"
      "list_all2 (\<lambda>x y. text_flesch_reading_ease lib x = Inr y) article_text scores"
      "list_all2 (\<lambda>x y. percent_difficult_words lib x = Inr y) article_text ratios"
      "list_all2 (\<lambda>x y. analyze_sentiment lib x = Inr y) article_text pairs"
      "length country = length (index df)"
      "length article_text = length (index df)"
      "index df \<noteq> []"
    and df1: "df1 = df\<lparr>columns :=
             AList.update ''article_subjectivity'' (map (\<lambda>p. PyFloat (snd p)) pairs)
              (AList.update ''article_polarity'' (map (\<lambda>p. PyFloat (fst p)) pairs)
                (AList.update ''percent_difficult_words'' ratios
                  (AList.update ''flesch_reading_ease'' scores
                    (AList.update ''is_suspicious_country'' flags (columns df)))))\<rparr>"
    unfolding add_features_eq_Inr by blast
  from s2 have d: "set dropped_columns \<subseteq> column_names df1"
    and df2: "df2 = \<lparr>index = map (\<lambda>i. PyInt (int i)) [0..<length (index df1)],
            columns = filter (\<lambda>c. fst c \<notin> set dropped_columns) (columns df1)\<rparr>"
    unfolding drop_features_eq_Inr by blast+
  from d have d': "set dropped_columns \<subseteq> column_names df"
    unfolding df1 column_names_added using dropped_not_derived by blast
  from s3 obtain creation_date scaled where
    c: "getitem df2 ''creation_date'' = Inr creation_date"
      "list_all2 (\<lambda>x y. timestamp_div now x = Inr y) creation_date scaled"
      "length scaled = length (index df2)"
    and out: "out = df2\<lparr>columns := AList.update ''creation_date'' scaled (columns df2)\<rparr>"
    unfolding scale_creation_dates_eq_Inr by blast
  have c': "getitem df ''creation_date'' = Inr creation_date"
    using c(1)
    by (simp add: df2 df1 getitem_def update_conv' map_of_filter_fst creation_date_not_dropped
        split: option.splits)
  have len: "length creation_date = length (index df)"
    using c(2,3) by (auto simp add: df2 df1 dest: list_all2_lengthD)
  have "out = \<lparr>index = map (\<lambda>i. PyInt (int i)) [0..<length (index df)],
             columns = AList.update ''creation_date'' scaled
              (filter (\<lambda>c. fst c \<notin> set dropped_columns)
               (AList.update ''article_subjectivity'' (map (\<lambda>p. PyFloat (snd p)) pairs)
                (AList.update ''article_polarity'' (map (\<lambda>p. PyFloat (fst p)) pairs)
                 (AList.update ''percent_difficult_words'' ratios
                  (AList.update ''flesch_reading_ease'' scores
                   (AList.update ''is_suspicious_country'' flags (columns df)))))))\<rparr>"
    by (simp add: out df2 df1)
  with a c' c(2) len d' show ?rhs by blast
next
  assume ?rhs
  then obtain country article_text creation_date flags scores ratios pairs scaled where
    h: "getitem df ''country'' = Inr country"
      "getitem df ''article_text'' = Inr article_text"
      "list_all2 (\<lambda>x y. is_suspicious_country x = Inr y) country flags"
      "list_all2 (\<lambda>x y. text_flesch_reading_ease lib x = Inr y) article_text scores"
      "list_all2 (\<lambda>x y. percent_difficult_words lib x = Inr y) article_text ratios"
      "list_all2 (\<lambda>x y. analyze_sentiment lib x = Inr y) article_text pairs"
      "length country = length (index df)"
      "length article_text = length (index df)"
      "index df \<noteq> []"
    and c: "getitem df ''creation_date'' = Inr creation_date"
      "list_all2 (\<lambda>x y. timestamp_div now x = Inr y) creation_date scaled"
      "length creation_date = length (index df)"
    and d: "set dropped_columns \<subseteq> column_names df"
    and out: "out = \<lparr>index = map (\<lambda>i. PyInt (int i)) [0..<length (index df)],
             columns = AList.update ''creation_date'' scaled
              (filter (\<lambda>c. fst c \<notin> set dropped_columns)
               (AList.update ''article_subjectivity'' (map (\<lambda>p. PyFloat (snd p)) pairs)
                (AList.update ''article_polarity'' (map (\<lambda>p. PyFloat (fst p)) pairs)
                 (AList.update ''percent_difficult_words'' ratios
                  (AList.update ''flesch_reading_ease'' scores
                   (AList.update ''is_suspicious_country'' flags (columns df)))))))\<rparr>"
    by blast
  define df1 where "df1 = df\<lparr>columns :=
             AList.update ''article_subjectivity'' (map (\<lambda>p. PyFloat (snd p)) pairs)
              (AList.update ''article_polarity'' (map (\<lambda>p. PyFloat (fst p)) pairs)
                (AList.update ''percent_difficult_words'' ratios
                  (AList.update ''flesch_reading_ease'' scores
                    (AList.update ''is_suspicious_country'' flags (columns df)))))\<rparr>"
  define df2 where "df2 = \<lparr>index = map (\<lambda>i. PyInt (int i)) [0..<length (index df1)],
            columns = filter (\<lambda>c. fst c \<notin> set dropped_columns) (columns df1)\<rparr>"
  have s1: "add_features lib df = Inr df1"
    unfolding add_features_eq_Inr df1_def using h by blast
  have "set dropped_columns \<subseteq> column_names df1"
    unfolding df1_def column_names_added using d by blast
  then have s2: "drop_features df1 = Inr df2"
    unfolding drop_features_eq_Inr df2_def by simp
  have "getitem df2 ''creation_date'' = Inr creation_date"
    using c(1)
    by (simp add: df2_def df1_def getitem_def update_conv' map_of_filter_fst creation_date_not_dropped
        split: option.splits)
  moreover have "length scaled = length (index df2)"
    using c(2,3) by (auto simp add: df2_def df1_def dest: list_all2_lengthD)
  moreover have "out = df2\<lparr>columns := AList.update ''creation_date'' scaled (columns df2)\<rparr>"
    by (simp add: out df2_def df1_def)
  ultimately have s3: "scale_creation_dates now df2 = Inr out"
    unfolding scale_creation_dates_eq_Inr using c(2) by blast
  show ?lhs
    unfolding refine_fake_news_data_def scale_features_def and_then_eq_Inr
    using s1 s2 s3 by blast
qed

subsection \<open>C1: the suspicious-country flag\<close>

text \<open>
  C1. For every country string, \<open>is_suspicious_country\<close> returns 1 if the string is in
  the denylist {"MK", "PA"} or contains the substring "REDACTED" (somewhere: after any
  prefix, before any suffix), and returns 0 for every other string. It never raises on
  a string.
\<close>

theorem is_suspicious_country_flag:
  "is_suspicious_country (PyStr c) =
     Inr (PyInt (if c \<in> {''MK'', ''PA''} \<or> (\<exists>p s. c = p @ ''REDACTED'' @ s) then 1 else 0))"
  by (simp add: sus_countries_def int_of_bool_def str_contains_iff)

lemma is_suspicious_country_examples:
  "is_suspicious_country (PyStr ''MK'') = Inr (PyInt 1)"
  "is_suspicious_country (PyStr ''REDACTED FOR PRIVACY'') = Inr (PyInt 1)"
  "is_suspicious_country (PyStr ''US'') = Inr (PyInt 0)"
  "is_suspicious_country (PyStr ''mk'') = Inr (PyInt 0)"
  "is_suspicious_country PyNone = Inl TypeError"
  by code_simp+

subsection \<open>Rounding on concrete numbers\<close>

text \<open>The floats 0.1 and 1/3, two ties (rounded to the even significand), and a
  number that is already a float.\<close>

lemma round_binary64_examples:
  "round_binary64 (1 / 10) = 3602879701896397 / 36028797018963968"
  "round_binary64 (1 / 3) = 6004799503160661 / 18014398509481984"
  "round_binary64 (1 + 1 / 2 ^ 53) = 1"
  "round_binary64 (1 + 3 / 2 ^ 53) = 1 + 1 / 2 ^ 51"
  "is_binary64 (5404319552844595 / 9007199254740992)"
  by code_simp+

lemma round_binary64_one: "round_binary64 1 = 1"
  by code_simp

lemma round_binary64_two: "round_binary64 2 = 2"
  by code_simp

lemma round_binary64_half: "round_binary64 (1 / 2) = 1 / 2"
  by code_simp

subsection \<open>C3: the difficult-word ratio\<close>

text \<open>
  C3. For every article text whose lexicon count is zero, \<open>percent_difficult_words\<close>
  returns exactly the int 0; for every text with a nonzero lexicon count it returns the
  difficult-word count divided by the lexicon count (the float nearest to the quotient).
  On no text does it raise ZeroDivisionError: the division is reached only with a
  nonzero divisor.
\<close>

theorem percent_difficult_words_guard:
  "percent_difficult_words lib (PyStr article) =
     (if lexicon_count lib article = 0 then Inr (PyInt 0)
      else Inr (PyFloat (round_binary64
             (of_int (difficult_words lib article) / of_int (lexicon_count lib article)))))
   \<and> percent_difficult_words lib (PyStr article) \<noteq> Inl ZeroDivisionError"
  by (simp add: and_then_def int_truediv_def)

text \<open>An article with no blank has no word for the stand-in library, one with four
  blanks and one x has the ratio 0.25.\<close>

lemma percent_difficult_words_examples:
  "percent_difficult_words example_lib (PyStr ''calm'') = Inr (PyInt 0)"
  "percent_difficult_words example_lib (PyStr ''box it up now ok'') = Inr (PyFloat (1 / 4))"
  by code_simp+

subsection \<open>C4 and C10: rescaling the sentiment\<close>

text \<open>The expression \<^verbatim>\<open>(v + 1) / 2\<close> in floats: its range and its monotonicity.\<close>

lemma rescale_range:
  assumes "lo \<le> v" and "v \<le> 1" and "lo = - 1 \<or> lo = 0"
  shows "(1 + lo) / 2 \<le> round_binary64 (round_binary64 (v + 1) / 2)"
    and "round_binary64 (round_binary64 (v + 1) / 2) \<le> 1"
proof -
  have "round_binary64 (v + 1) \<le> round_binary64 2"
    using assms(2) by (intro round_binary64_mono) simp
  then have "round_binary64 (v + 1) / 2 \<le> 1" by (simp add: round_binary64_two)
  then have "round_binary64 (round_binary64 (v + 1) / 2) \<le> round_binary64 1"
    by (rule round_binary64_mono)
  then show "round_binary64 (round_binary64 (v + 1) / 2) \<le> 1"
    by (simp add: round_binary64_one)
  have "round_binary64 (1 + lo) \<le> round_binary64 (v + 1)"
    using assms(1) by (intro round_binary64_mono) simp
  moreover have "round_binary64 (1 + lo) = 1 + lo"
    using assms(3) by (auto simp add: round_binary64_zero round_binary64_one)
  ultimately have "(1 + lo) / 2 \<le> round_binary64 (v + 1) / 2" by simp
  then have "round_binary64 ((1 + lo) / 2) \<le> round_binary64 (round_binary64 (v + 1) / 2)"
    by (rule round_binary64_mono)
  moreover have "round_binary64 ((1 + lo) / 2) = (1 + lo) / 2"
    using assms(3) by (auto simp add: round_binary64_zero round_binary64_half)
  ultimately show "(1 + lo) / 2 \<le> round_binary64 (round_binary64 (v + 1) / 2)" by simp
qed

lemma rescale_mono:
  assumes "a \<le> b"
  shows "round_binary64 (round_binary64 (a + 1) / 2) \<le> round_binary64 (round_binary64 (b + 1) / 2)"
proof -
  have "round_binary64 (a + 1) \<le> round_binary64 (b + 1)"
    using assms by (intro round_binary64_mono) simp
  then have "round_binary64 (a + 1) / 2 \<le> round_binary64 (b + 1) / 2" by simp
  then show ?thesis by (rule round_binary64_mono)
qed

lemma analyze_sentiment_str:
  "analyze_sentiment lib (PyStr a) =
     Inr (round_binary64 (round_binary64 (fst (sentiment lib a) + 1) / 2),
          round_binary64 (round_binary64 (snd (sentiment lib a) + 1) / 2))"
  by (simp add: and_then_def float_truediv_def float_add_def)

text \<open>
  C4, as the code has it. For every article whose raw polarity and subjectivity lie in
  [-1, 1], \<open>analyze_sentiment\<close> returns for each the float value of \<^verbatim>\<open>(v + 1) / 2\<close>,
  which lies in [0, 1], and the rescaling is monotone: a raw value that is not larger
  gives a rescaled value that is not larger. (Strictness is lost to rounding, as the
  two articles of the stand-in library show below.)
\<close>

theorem analyze_sentiment_range_monotone:
  assumes "- 1 \<le> fst (sentiment lib a)" and "fst (sentiment lib a) \<le> 1"
    and "- 1 \<le> snd (sentiment lib a)" and "snd (sentiment lib a) \<le> 1"
  shows "\<exists>p s. analyze_sentiment lib (PyStr a) = Inr (p, s)
      \<and> p = round_binary64 (round_binary64 (fst (sentiment lib a) + 1) / 2)
      \<and> s = round_binary64 (round_binary64 (snd (sentiment lib a) + 1) / 2)
      \<and> 0 \<le> p \<and> p \<le> 1 \<and> 0 \<le> s \<and> s \<le> 1
      \<and> (\<forall>b p' s'. analyze_sentiment lib (PyStr b) = Inr (p', s') \<longrightarrow>
            (fst (sentiment lib a) \<le> fst (sentiment lib b) \<longrightarrow> p \<le> p') \<and>
            (snd (sentiment lib a) \<le> snd (sentiment lib b) \<longrightarrow> s \<le> s'))"
  using rescale_range [of "- 1" "fst (sentiment lib a)"]
    rescale_range [of "- 1" "snd (sentiment lib a)"] assms
  by (simp del: analyze_sentiment.simps add: analyze_sentiment_str rescale_mono)

theorem analyze_sentiment_range_monotone_witness:
  "\<exists>p s p' s'. analyze_sentiment example_lib (PyStr ''calm'') = Inr (p, s)
      \<and> analyze_sentiment example_lib (PyStr ''angry'') = Inr (p', s')
      \<and> 0 \<le> p \<and> p \<le> 1 \<and> 0 \<le> s \<and> s \<le> 1 \<and> p \<le> p' \<and> s \<le> s'"
proof -
  have "- 1 \<le> fst (sentiment example_lib ''calm'')" "fst (sentiment example_lib ''calm'') \<le> 1"
    "- 1 \<le> snd (sentiment example_lib ''calm'')" "snd (sentiment example_lib ''calm'') \<le> 1"
    by (simp_all add: example_lib_def)
  from analyze_sentiment_range_monotone [OF this]
  obtain p s where ps: "analyze_sentiment example_lib (PyStr ''calm'') = Inr (p, s)"
      "0 \<le> p" "p \<le> 1" "0 \<le> s" "s \<le> 1"
    and mono: "\<And>b p' s'. analyze_sentiment example_lib (PyStr b) = Inr (p', s') \<Longrightarrow>
      (fst (sentiment example_lib ''calm'') \<le> fst (sentiment example_lib b) \<longrightarrow> p \<le> p') \<and>
      (snd (sentiment example_lib ''calm'') \<le> snd (sentiment example_lib b) \<longrightarrow> s \<le> s')"
    by blast
  obtain p' s' where b: "analyze_sentiment example_lib (PyStr ''angry'') = Inr (p', s')"
    by (simp only: analyze_sentiment_str)
  have "fst (sentiment example_lib ''calm'') \<le> fst (sentiment example_lib ''angry'')"
    "snd (sentiment example_lib ''calm'') \<le> snd (sentiment example_lib ''angry'')"
    by (simp_all add: example_lib_def)
  with mono [OF b] have "p \<le> p'" "s \<le> s'" by simp_all
  with ps b show ?thesis by blast
qed

text \<open>
  The claim C4 asks for strict monotonicity. The floats 0.2 and 0.20000000000000004
  are two different raw polarities, and \<^verbatim>\<open>(v + 1) / 2\<close> is the float 0.6 for both.
\<close>

theorem analyze_sentiment_collision:
  "fst (sentiment example_lib ''calm'') < fst (sentiment example_lib ''angry'')
   \<and> analyze_sentiment example_lib (PyStr ''calm'')
       = Inr (5404319552844595 / 9007199254740992, 1 / 2)
   \<and> analyze_sentiment example_lib (PyStr ''angry'')
       = Inr (5404319552844595 / 9007199254740992, 3 / 4)"
  by code_simp

text \<open>
  C10. For every article whose raw subjectivity lies in [0, 1], the rescaled
  subjectivity is the float value of \<^verbatim>\<open>(subjectivity + 1) / 2\<close> and lies in [0.5, 1]:
  no value below 0.5 is produced.
\<close>

theorem analyze_sentiment_subjectivity_upper_half:
  assumes "0 \<le> snd (sentiment lib a)" and "snd (sentiment lib a) \<le> 1"
  shows "\<exists>p s. analyze_sentiment lib (PyStr a) = Inr (p, s)
      \<and> s = round_binary64 (round_binary64 (snd (sentiment lib a) + 1) / 2)
      \<and> 1 / 2 \<le> s \<and> s \<le> 1 \<and> \<not> s < 1 / 2"
  using rescale_range [of 0 "snd (sentiment lib a)"] assms
  by (simp del: analyze_sentiment.simps add: analyze_sentiment_str)

theorem analyze_sentiment_subjectivity_upper_half_witness:
  "\<exists>p s. analyze_sentiment example_lib (PyStr ''angry'') = Inr (p, s) \<and> 1 / 2 \<le> s \<and> s \<le> 1"
proof -
  have "0 \<le> snd (sentiment example_lib ''angry'')" "snd (sentiment example_lib ''angry'') \<le> 1"
    by (simp_all add: example_lib_def)
  from analyze_sentiment_subjectivity_upper_half [OF this] show ?thesis by blast
qed

subsection \<open>When the pipeline returns, and what it keeps well-formed\<close>

text \<open>
  The pipeline returns a frame for every well-formed frame with at least one row that
  has the five columns it drops and the creation date, strings in the country and
  article text columns and numbers in the creation date column, when the clock is not
  0. The frame it returns for a well-formed frame is well-formed.
\<close>

lemma series_returns:
  "list_all P xs \<Longrightarrow> (\<And>x. P x \<Longrightarrow> \<exists>y. f x = Inr y)
     \<Longrightarrow> \<exists>ys. list_all2 (\<lambda>x y. f x = Inr y) xs ys"
proof (induction xs)
  case Nil
  then show ?case by simp
next
  case (Cons x xs)
  from Cons.prems obtain y where y: "f x = Inr y" by auto
  from Cons obtain ys where "list_all2 (\<lambda>x y. f x = Inr y) xs ys" by auto
  with y have "list_all2 (\<lambda>x y. f x = Inr y) (x # xs) (y # ys)" by simp
  then show ?case by (rule exI)
qed

lemma is_str_returns:
  assumes "is_str x"
  shows "\<exists>y. is_suspicious_country x = Inr y"
    and "\<exists>y. text_flesch_reading_ease lib x = Inr y"
    and "\<exists>y. percent_difficult_words lib x = Inr y"
    and "\<exists>y. analyze_sentiment lib x = Inr y"
  using assms
  by (cases x; simp add: and_then_def int_truediv_def float_truediv_def)+

lemma is_number_returns:
  assumes "is_number x" and "now \<noteq> 0"
  shows "\<exists>y. timestamp_div now x = Inr y"
  using assms by (cases x) (simp_all add: float_truediv_def)

lemma wf_column_length:
  assumes "wf_dataframe df" and "getitem df name = Inr xs"
  shows "length xs = length (index df)"
proof -
  from assms(2) have "map_of (columns df) name = Some xs"
    by (simp add: getitem_eq_Inr)
  then have "(name, xs) \<in> set (columns df)" by (rule map_of_SomeD)
  with assms(1) show ?thesis
    by (auto simp add: wf_dataframe_def list_all_iff)
qed

lemma refine_fake_news_data_returns:
  assumes "wf_dataframe df" and "index df \<noteq> []" and "now \<noteq> 0"
    and "set dropped_columns \<subseteq> column_names df"
    and "getitem df ''country'' = Inr country" and "list_all is_str country"
    and "getitem df ''article_text'' = Inr article_text" and "list_all is_str article_text"
    and "getitem df ''creation_date'' = Inr creation_date" and "list_all is_number creation_date"
  shows "\<exists>out. refine_fake_news_data lib now df = Inr out"
proof -
  from series_returns [OF assms(6) is_str_returns(1)]
  obtain flags where 1: "list_all2 (\<lambda>x y. is_suspicious_country x = Inr y) country flags" ..
  from series_returns [OF assms(8) is_str_returns(2)]
  obtain scores where
    2: "list_all2 (\<lambda>x y. text_flesch_reading_ease lib x = Inr y) article_text scores" ..
  from series_returns [OF assms(8) is_str_returns(3)]
  obtain ratios where
    3: "list_all2 (\<lambda>x y. percent_difficult_words lib x = Inr y) article_text ratios" ..
  from series_returns [OF assms(8) is_str_returns(4)]
  obtain pairs where
    4: "list_all2 (\<lambda>x y. analyze_sentiment lib x = Inr y) article_text pairs" ..
  from series_returns [OF assms(10) is_number_returns [OF _ assms(3)]]
  obtain scaled where
    5: "list_all2 (\<lambda>x y. timestamp_div now x = Inr y) creation_date scaled" ..
  note len = wf_column_length [OF assms(1) assms(5)] wf_column_length [OF assms(1) assms(7)]
    wf_column_length [OF assms(1) assms(9)]
  show ?thesis
    unfolding refine_fake_news_data_eq_Inr
    using assms(2,4,5,7,9) 1 2 3 4 5 len by blast
qed

lemma list_all_update:
  "list_all P al \<Longrightarrow> P (k, v) \<Longrightarrow> list_all P (AList.update k v al)"
  by (induction al) auto

lemma list_all_filter: "list_all P al \<Longrightarrow> list_all P (filter Q al)"
  by (induction al) auto

lemma refine_fake_news_data_wf:
  assumes "refine_fake_news_data lib now df = Inr out" and "wf_dataframe df"
  shows "wf_dataframe out"
proof -
  from assms(1) obtain flags scores ratios pairs scaled
    and country article_text creation_date :: "cell list" where
    l: "list_all2 (\<lambda>x y. is_suspicious_country x = Inr y) country flags"
      "list_all2 (\<lambda>x y. text_flesch_reading_ease lib x = Inr y) article_text scores"
      "list_all2 (\<lambda>x y. percent_difficult_words lib x = Inr y) article_text ratios"
      "list_all2 (\<lambda>x y. analyze_sentiment lib x = Inr y) article_text pairs"
      "list_all2 (\<lambda>x y. timestamp_div now x = Inr y) creation_date scaled"
      "length country = length (index df)"
      "length article_text = length (index df)"
      "length creation_date = length (index df)"
    and out: "out = \<lparr>index = map (\<lambda>i. PyInt (int i)) [0..<length (index df)],
             columns = AList.update ''creation_date'' scaled
              (filter (\<lambda>c. fst c \<notin> set dropped_columns)
               (AList.update ''article_subjectivity'' (map (\<lambda>p. PyFloat (snd p)) pairs)
                (AList.update ''article_polarity'' (map (\<lambda>p. PyFloat (fst p)) pairs)
                 (AList.update ''percent_difficult_words'' ratios
                  (AList.update ''flesch_reading_ease'' scores
                   (AList.update ''is_suspicious_country'' flags (columns df)))))))\<rparr>"
    unfolding refine_fake_news_data_eq_Inr by blast
  from l have len: "length flags = length (index df)" "length scores = length (index df)"
    "length ratios = length (index df)" "length pairs = length (index df)"
    "length scaled = length (index df)"
    by (auto dest: list_all2_lengthD)
  from assms(2) have d: "distinct (map fst (columns df))"
    and a: "list_all (\<lambda>c. length (snd c) = length (index df)) (columns df)"
    by (simp_all add: wf_dataframe_def)
  have "distinct (map fst (columns out))"
    unfolding out using d by (simp add: distinct_update distinct_map_filter)
  moreover have "list_all (\<lambda>c. length (snd c) = length (index out)) (columns out)"
    unfolding out using a len by (simp add: list_all_update list_all_filter)
  ultimately show ?thesis by (simp add: wf_dataframe_def)
qed

subsection \<open>C2: the refinement pipeline keeps the rows\<close>

lemma getitem_columns:
  "getitem \<lparr>index = ix, columns = cs\<rparr> name =
     (case map_of cs name of None \<Rightarrow> Inl (KeyError [name]) | Some xs \<Rightarrow> Inr xs)"
  by (simp add: getitem_def)

text \<open>
  C2. Whenever \<open>refine_fake_news_data\<close> returns a frame, the frame has as many rows
  as the input, in the input's order: every derived column holds, at row i, the value
  computed from row i of the input's source column; the creation date at row i is the
  input's creation date at row i, divided by the clock; and every column that the
  pipeline neither drops nor writes is the input's column, cell for cell. Only the set
  of columns and the values of the written columns change; the rows are labelled
  0, 1, 2, ... in their order by \<open>reset_index\<close>, and every column of the result has one
  cell per row if that holds of the input. (The pipeline raises, and returns no frame,
  when a source column is missing, when a cell has the wrong type, and on a frame with
  no rows, where the unpacking in \<open>add_sentiment_columns\<close> fails.)
\<close>

theorem refine_fake_news_data_rows:
  assumes "refine_fake_news_data lib now df = Inr out"
  shows "length (index out) = length (index df)
    \<and> index out = map (\<lambda>i. PyInt (int i)) [0..<length (index df)]
    \<and> (wf_dataframe df \<longrightarrow> wf_dataframe out)
    \<and> (\<exists>country article_text creation_date flags scores ratios pairs scaled.
          getitem df ''country'' = Inr country
        \<and> getitem df ''article_text'' = Inr article_text
        \<and> getitem df ''creation_date'' = Inr creation_date
        \<and> length country = length (index df)
        \<and> length article_text = length (index df)
        \<and> length creation_date = length (index df)
        \<and> getitem out ''is_suspicious_country'' = Inr flags
        \<and> list_all2 (\<lambda>x y. is_suspicious_country x = Inr y) country flags
        \<and> getitem out ''flesch_reading_ease'' = Inr scores
        \<and> list_all2 (\<lambda>x y. text_flesch_reading_ease lib x = Inr y) article_text scores
        \<and> getitem out ''percent_difficult_words'' = Inr ratios
        \<and> list_all2 (\<lambda>x y. percent_difficult_words lib x = Inr y) article_text ratios
        \<and> getitem out ''article_polarity'' = Inr (map (\<lambda>p. PyFloat (fst p)) pairs)
        \<and> getitem out ''article_subjectivity'' = Inr (map (\<lambda>p. PyFloat (snd p)) pairs)
        \<and> list_all2 (\<lambda>x y. analyze_sentiment lib x = Inr y) article_text pairs
        \<and> getitem out ''creation_date'' = Inr scaled
        \<and> list_all2 (\<lambda>x y. timestamp_div now x = Inr y) creation_date scaled)
    \<and> (\<forall>name. name \<notin> set dropped_columns \<union> set derived_columns \<union> {''creation_date''}
          \<longrightarrow> getitem out name = getitem df name)"
proof -
  from assms obtain country article_text creation_date flags scores ratios pairs scaled where
    h: "getitem df ''country'' = Inr country"
      "getitem df ''article_text'' = Inr article_text"
      "getitem df ''creation_date'' = Inr creation_date"
      "list_all2 (\<lambda>x y. is_suspicious_country x = Inr y) country flags"
      "list_all2 (\<lambda>x y. text_flesch_reading_ease lib x = Inr y) article_text scores"
      "list_all2 (\<lambda>x y. percent_difficult_words lib x = Inr y) article_text ratios"
      "list_all2 (\<lambda>x y. analyze_sentiment lib x = Inr y) article_text pairs"
      "list_all2 (\<lambda>x y. timestamp_div now x = Inr y) creation_date scaled"
      "length country = length (index df)"
      "length article_text = length (index df)"
      "length creation_date = length (index df)"
    and out: "out = \<lparr>index = map (\<lambda>i. PyInt (int i)) [0..<length (index df)],
             columns = AList.update ''creation_date'' scaled
              (filter (\<lambda>c. fst c \<notin> set dropped_columns)
               (AList.update ''article_subjectivity'' (map (\<lambda>p. PyFloat (snd p)) pairs)
                (AList.update ''article_polarity'' (map (\<lambda>p. PyFloat (fst p)) pairs)
                 (AList.update ''percent_difficult_words'' ratios
                  (AList.update ''flesch_reading_ease'' scores
                   (AList.update ''is_suspicious_country'' flags (columns df)))))))\<rparr>"
    unfolding refine_fake_news_data_eq_Inr by blast
  have nd: "''is_suspicious_country'' \<notin> set dropped_columns"
    "''flesch_reading_ease'' \<notin> set dropped_columns"
    "''percent_difficult_words'' \<notin> set dropped_columns"
    "''article_polarity'' \<notin> set dropped_columns"
    "''article_subjectivity'' \<notin> set dropped_columns"
    by (simp_all add: dropped_columns_def)
  have rows: "length (index out) = length (index df)" by (simp add: out)
  have labels: "index out = map (\<lambda>i. PyInt (int i)) [0..<length (index df)]"
    by (simp add: out)
  have wf: "wf_dataframe df \<longrightarrow> wf_dataframe out"
    using refine_fake_news_data_wf [OF assms] by blast
  have g1: "getitem out ''is_suspicious_country'' = Inr flags"
    and g2: "getitem out ''flesch_reading_ease'' = Inr scores"
    and g3: "getitem out ''percent_difficult_words'' = Inr ratios"
    and g4: "getitem out ''article_polarity'' = Inr (map (\<lambda>p. PyFloat (fst p)) pairs)"
    and g5: "getitem out ''article_subjectivity'' = Inr (map (\<lambda>p. PyFloat (snd p)) pairs)"
    and g6: "getitem out ''creation_date'' = Inr scaled"
    unfolding out getitem_columns by (simp_all add: update_conv' map_of_filter_fst nd)
  have rest: "getitem out name = getitem df name"
    if "name \<notin> set dropped_columns \<union> set derived_columns \<union> {''creation_date''}" for name
    using that unfolding out getitem_columns getitem_def
    by (simp add: update_conv' map_of_filter_fst derived_columns_def)
  from h g1 g2 g3 g4 g5 g6 have derived:
    "\<exists>country article_text creation_date flags scores ratios pairs scaled.
          getitem df ''country'' = Inr country
        \<and> getitem df ''article_text'' = Inr article_text
        \<and> getitem df ''creation_date'' = Inr creation_date
        \<and> length country = length (index df)
        \<and> length article_text = length (index df)
        \<and> length creation_date = length (index df)
        \<and> getitem out ''is_suspicious_country'' = Inr flags
        \<and> list_all2 (\<lambda>x y. is_suspicious_country x = Inr y) country flags
        \<and> getitem out ''flesch_reading_ease'' = Inr scores
        \<and> list_all2 (\<lambda>x y. text_flesch_reading_ease lib x = Inr y) article_text scores
        \<and> getitem out ''percent_difficult_words'' = Inr ratios
        \<and> list_all2 (\<lambda>x y. percent_difficult_words lib x = Inr y) article_text ratios
        \<and> getitem out ''article_polarity'' = Inr (map (\<lambda>p. PyFloat (fst p)) pairs)
        \<and> getitem out ''article_subjectivity'' = Inr (map (\<lambda>p. PyFloat (snd p)) pairs)
        \<and> list_all2 (\<lambda>x y. analyze_sentiment lib x = Inr y) article_text pairs
        \<and> getitem out ''creation_date'' = Inr scaled
        \<and> list_all2 (\<lambda>x y. timestamp_div now x = Inr y) creation_date scaled"
    by blast
  from rest have kept:
    "\<forall>name. name \<notin> set dropped_columns \<union> set derived_columns \<union> {''creation_date''}
          \<longrightarrow> getitem out name = getitem df name"
    by simp
  from rows labels wf derived kept show ?thesis by (intro conjI)
qed

lemma example_frame_refined:
  "refine_fake_news_data example_lib 1700000000 example_frame = Inr example_refined"
  by code_simp

theorem refine_fake_news_data_rows_witness:
  "refine_fake_news_data example_lib 1700000000 example_frame = Inr example_refined
     \<and> length (index example_refined) = 2
     \<and> getitem example_refined ''tweets'' = Inr [PyInt 3, PyInt 0]"
proof -
  note r = refine_fake_news_data_rows [OF example_frame_refined]
  from r have "length (index example_refined) = length (index example_frame)"
    by blast
  moreover from r have "getitem example_refined ''tweets'' = getitem example_frame ''tweets''"
    by (simp add: dropped_columns_def derived_columns_def)
  ultimately show ?thesis
    using example_frame_refined by (simp add: example_frame_def getitem_def)
qed

subsection \<open>C6: the columns after pruning\<close>

lemma names_filter: "fst ` {c \<in> set al. fst c \<notin> S} = fst ` set al - S"
  by auto

lemma insert_kept_name:
  "c \<in> A \<Longrightarrow> c \<notin> S \<Longrightarrow> S \<inter> D = {} \<Longrightarrow> insert c ((A \<union> D) - S) = (A - S) \<union> D"
  by blast

lemma kept_names_disjoint: "S \<inter> D = {} \<Longrightarrow> ((A - S) \<union> D) \<inter> S = {}"
  by blast

lemma kept_names_there:
  "c \<in> A \<Longrightarrow> c \<notin> S \<Longrightarrow> insert c D \<subseteq> (A - S) \<union> D"
  by blast

lemma set_dropped_columns:
  "set dropped_columns = {''id'', ''article_text'', ''country'', ''title'', ''news_url''}"
  by (simp add: dropped_columns_def)

lemma set_derived_columns:
  "insert ''creation_date'' (set derived_columns) =
     {''is_suspicious_country'', ''flesch_reading_ease'', ''percent_difficult_words'',
      ''article_polarity'', ''article_subjectivity'', ''creation_date''}"
  unfolding derived_columns_def by (simp add: insert_commute)

text \<open>
  C6. Whenever \<open>refine_fake_news_data\<close> returns a frame (the input then holds the
  five source columns it drops, and the creation date), the frame has none of the
  columns id, article_text, country, title, news_url; it has the five derived columns
  and creation_date; and every other column of the input is still there, unchanged.
\<close>

theorem refine_fake_news_data_columns:
  assumes "refine_fake_news_data lib now df = Inr out"
  shows "column_names out = (column_names df - set dropped_columns) \<union> set derived_columns
    \<and> column_names out \<inter> {''id'', ''article_text'', ''country'', ''title'', ''news_url''} = {}
    \<and> {''is_suspicious_country'', ''flesch_reading_ease'', ''percent_difficult_words'',
        ''article_polarity'', ''article_subjectivity'', ''creation_date''} \<subseteq> column_names out
    \<and> {''id'', ''article_text'', ''country'', ''title'', ''news_url''} \<subseteq> column_names df
    \<and> ''creation_date'' \<in> column_names df
    \<and> (\<forall>name \<in> column_names df.
          name \<notin> set dropped_columns \<union> set derived_columns \<union> {''creation_date''}
          \<longrightarrow> name \<in> column_names out \<and> getitem out name = getitem df name)"
proof -
  from assms obtain creation_date flags scores ratios pairs scaled where
    c: "getitem df ''creation_date'' = Inr creation_date"
    and d: "set dropped_columns \<subseteq> column_names df"
    and out: "out = \<lparr>index = map (\<lambda>i. PyInt (int i)) [0..<length (index df)],
             columns = AList.update ''creation_date'' scaled
              (filter (\<lambda>c. fst c \<notin> set dropped_columns)
               (AList.update ''article_subjectivity'' (map (\<lambda>p. PyFloat (snd p)) pairs)
                (AList.update ''article_polarity'' (map (\<lambda>p. PyFloat (fst p)) pairs)
                 (AList.update ''percent_difficult_words'' ratios
                  (AList.update ''flesch_reading_ease'' scores
                   (AList.update ''is_suspicious_country'' flags (columns df)))))))\<rparr>"
    unfolding refine_fake_news_data_eq_Inr by blast
  from c have cd: "''creation_date'' \<in> column_names df"
    using getitem_present by blast
  define added where "added = df\<lparr>columns :=
      AList.update ''article_subjectivity'' (map (\<lambda>p. PyFloat (snd p)) pairs)
       (AList.update ''article_polarity'' (map (\<lambda>p. PyFloat (fst p)) pairs)
         (AList.update ''percent_difficult_words'' ratios
           (AList.update ''flesch_reading_ease'' scores
             (AList.update ''is_suspicious_country'' flags (columns df)))))\<rparr>"
  have "column_names out = insert ''creation_date'' (column_names added - set dropped_columns)"
    unfolding out added_def column_names_def by (simp add: dom_update names_filter)
  also have "column_names added = column_names df \<union> set derived_columns"
    unfolding added_def by (rule column_names_added)
  also have "insert ''creation_date''
      ((column_names df \<union> set derived_columns) - set dropped_columns) =
      (column_names df - set dropped_columns) \<union> set derived_columns"
    using cd creation_date_not_dropped dropped_not_derived by (rule insert_kept_name)
  finally have names: "column_names out =
      (column_names df - set dropped_columns) \<union> set derived_columns" .
  have gone: "column_names out \<inter> set dropped_columns = {}"
    unfolding names using dropped_not_derived by (rule kept_names_disjoint)
  have there: "insert ''creation_date'' (set derived_columns) \<subseteq> column_names out"
    unfolding names using cd creation_date_not_dropped by (rule kept_names_there)
  have rest: "name \<in> column_names out \<and> getitem out name = getitem df name"
    if "name \<in> column_names df"
      "name \<notin> set dropped_columns \<union> set derived_columns \<union> {''creation_date''}" for name
  proof
    show "name \<in> column_names out" unfolding names using that by simp
    show "getitem out name = getitem df name"
      using that(2) unfolding out getitem_columns getitem_def
      by (simp add: update_conv' map_of_filter_fst derived_columns_def)
  qed
  have gone': "column_names out \<inter>
      {''id'', ''article_text'', ''country'', ''title'', ''news_url''} = {}"
    using gone unfolding set_dropped_columns .
  have there': "{''is_suspicious_country'', ''flesch_reading_ease'', ''percent_difficult_words'',
        ''article_polarity'', ''article_subjectivity'', ''creation_date''} \<subseteq> column_names out"
    using there unfolding set_derived_columns .
  have d': "{''id'', ''article_text'', ''country'', ''title'', ''news_url''} \<subseteq> column_names df"
    using d unfolding set_dropped_columns .
  have rest': "\<forall>name \<in> column_names df.
          name \<notin> set dropped_columns \<union> set derived_columns \<union> {''creation_date''}
          \<longrightarrow> name \<in> column_names out \<and> getitem out name = getitem df name"
    using rest by blast
  from names gone' there' d' cd rest' show ?thesis
    by (intro conjI)
qed

theorem refine_fake_news_data_columns_witness:
  "refine_fake_news_data example_lib 1700000000 example_frame = Inr example_refined
     \<and> column_names example_refined \<inter>
         {''id'', ''article_text'', ''country'', ''title'', ''news_url''} = {}
     \<and> {''is_suspicious_country'', ''flesch_reading_ease'', ''percent_difficult_words'',
        ''article_polarity'', ''article_subjectivity'', ''creation_date''}
         \<subseteq> column_names example_refined
     \<and> getitem example_refined ''tweets'' = Inr [PyInt 3, PyInt 0]"
proof -
  note r = refine_fake_news_data_columns [OF example_frame_refined]
  have "''tweets'' \<in> column_names example_frame"
    by (simp add: example_frame_def column_names_def)
  moreover have "''tweets'' \<notin> set dropped_columns \<union> set derived_columns \<union> {''creation_date''}"
    by (simp add: dropped_columns_def derived_columns_def)
  moreover from r have "\<forall>name \<in> column_names example_frame.
          name \<notin> set dropped_columns \<union> set derived_columns \<union> {''creation_date''}
          \<longrightarrow> name \<in> column_names example_refined
            \<and> getitem example_refined name = getitem example_frame name"
    by (elim conjE)
  ultimately have "getitem example_refined ''tweets'' = getitem example_frame ''tweets''"
    by blast
  then have kept: "getitem example_refined ''tweets'' = Inr [PyInt 3, PyInt 0]"
    by (simp add: example_frame_def getitem_def)
  from r have gone: "column_names example_refined \<inter>
         {''id'', ''article_text'', ''country'', ''title'', ''news_url''} = {}"
    by (elim conjE)
  from r have there: "{''is_suspicious_country'', ''flesch_reading_ease'',
        ''percent_difficult_words'', ''article_polarity'', ''article_subjectivity'',
        ''creation_date''} \<subseteq> column_names example_refined"
    by (elim conjE)
  from example_frame_refined gone there kept show ?thesis
    by (intro conjI)
qed

subsection \<open>C8: scaling the creation date\<close>

lemma float_quotient_range:
  assumes "is_binary64 now" and "0 < now" and "0 \<le> x" and "x \<le> now"
  shows "0 \<le> round_binary64 (round_binary64 x / now)"
    and "round_binary64 (round_binary64 x / now) \<le> 1"
proof -
  have "round_binary64 x \<le> round_binary64 now"
    using assms(4) by (rule round_binary64_mono)
  then have le: "round_binary64 x \<le> now"
    using assms(1) by (simp add: is_binary64_def)
  have ge: "0 \<le> round_binary64 x"
    using assms(3) by (rule round_binary64_nonneg)
  from ge assms(2) have "0 \<le> round_binary64 x / now" by simp
  then show "0 \<le> round_binary64 (round_binary64 x / now)"
    by (rule round_binary64_nonneg)
  from le assms(2) have "round_binary64 x / now \<le> 1" by simp
  then have "round_binary64 (round_binary64 x / now) \<le> round_binary64 1"
    by (rule round_binary64_mono)
  then show "round_binary64 (round_binary64 x / now) \<le> 1"
    by (simp add: round_binary64_one)
qed

lemma timestamp_div_int:
  "now \<noteq> 0 \<Longrightarrow>
     timestamp_div now (PyInt t) = Inr (PyFloat (round_binary64 (round_binary64 (of_int t) / now)))"
  by (simp add: float_truediv_def float_of_int_def)

lemma timestamp_div_float:
  "now \<noteq> 0 \<Longrightarrow> timestamp_div now (PyFloat x) = Inr (PyFloat (round_binary64 (x / now)))"
  by (simp add: float_truediv_def)

text \<open>
  C8, as the code has it. \<open>scale_creation_dates\<close> replaces, in every row, the creation
  timestamp by the float quotient of the timestamp and the clock. The quotient lies in
  [0, 1] for a timestamp between 0 and the clock; nothing clamps it otherwise.
\<close>

theorem scale_creation_dates_range:
  assumes "scale_creation_dates now df = Inr out" and "is_binary64 now" and "0 < now"
  shows "\<exists>creation_date scaled.
        getitem df ''creation_date'' = Inr creation_date
      \<and> getitem out ''creation_date'' = Inr scaled
      \<and> length scaled = length creation_date
      \<and> (\<forall>i < length creation_date. timestamp_div now (creation_date ! i) = Inr (scaled ! i))
      \<and> (\<forall>i < length creation_date. \<forall>t. creation_date ! i = PyInt t \<longrightarrow>
            scaled ! i = PyFloat (round_binary64 (float_of_int t / now))
            \<and> (0 \<le> t \<and> of_int t \<le> now \<longrightarrow>
                 0 \<le> round_binary64 (float_of_int t / now)
                 \<and> round_binary64 (float_of_int t / now) \<le> 1))
      \<and> (\<forall>i < length creation_date. \<forall>x. creation_date ! i = PyFloat x \<longrightarrow>
            scaled ! i = PyFloat (round_binary64 (x / now))
            \<and> (0 \<le> x \<and> x \<le> now \<longrightarrow>
                 0 \<le> round_binary64 (x / now) \<and> round_binary64 (x / now) \<le> 1))"
proof -
  from assms(1) obtain creation_date scaled where
    c: "getitem df ''creation_date'' = Inr creation_date"
    and rel: "list_all2 (\<lambda>x y. timestamp_div now x = Inr y) creation_date scaled"
    and out: "out = df\<lparr>columns := AList.update ''creation_date'' scaled (columns df)\<rparr>"
    unfolding scale_creation_dates_eq_Inr by blast
  have g: "getitem out ''creation_date'' = Inr scaled"
    by (simp add: out getitem_def update_conv')
  have len: "length scaled = length creation_date"
    using rel by (simp add: list_all2_lengthD)
  have cellwise: "timestamp_div now (creation_date ! i) = Inr (scaled ! i)"
    if "i < length creation_date" for i
    using rel that by (rule list_all2_nthD)
  have now: "now \<noteq> 0" using assms(3) by simp
  have ints: "scaled ! i = PyFloat (round_binary64 (float_of_int t / now))
      \<and> (0 \<le> t \<and> of_int t \<le> now \<longrightarrow>
           0 \<le> round_binary64 (float_of_int t / now)
           \<and> round_binary64 (float_of_int t / now) \<le> 1)"
    if "i < length creation_date" "creation_date ! i = PyInt t" for i t
  proof
    show "scaled ! i = PyFloat (round_binary64 (float_of_int t / now))"
      using cellwise [OF that(1)] that(2) now
      by (simp add: timestamp_div_int float_of_int_def del: timestamp_div.simps)
    show "0 \<le> t \<and> of_int t \<le> now \<longrightarrow>
           0 \<le> round_binary64 (float_of_int t / now)
           \<and> round_binary64 (float_of_int t / now) \<le> 1"
      using float_quotient_range [OF assms(2,3), of "of_int t"]
      by (simp add: float_of_int_def)
  qed
  have floats: "scaled ! i = PyFloat (round_binary64 (x / now))
      \<and> (0 \<le> x \<and> x \<le> now \<longrightarrow>
            0 \<le> round_binary64 (x / now) \<and> round_binary64 (x / now) \<le> 1)"
    if "i < length creation_date" "creation_date ! i = PyFloat x" for i x
  proof
    show "scaled ! i = PyFloat (round_binary64 (x / now))"
      using cellwise [OF that(1)] that(2) now
      by (simp add: timestamp_div_float del: timestamp_div.simps)
    show "0 \<le> x \<and> x \<le> now \<longrightarrow>
            0 \<le> round_binary64 (x / now) \<and> round_binary64 (x / now) \<le> 1"
    proof
      assume b: "0 \<le> x \<and> x \<le> now"
      then have "0 \<le> x / now" "x / now \<le> 1" using assms(3) by simp_all
      then have "0 \<le> round_binary64 (x / now)"
        "round_binary64 (x / now) \<le> round_binary64 1"
        by (simp_all add: round_binary64_nonneg round_binary64_mono)
      then show "0 \<le> round_binary64 (x / now) \<and> round_binary64 (x / now) \<le> 1"
        by (simp add: round_binary64_one)
    qed
  qed
  from c g len cellwise ints floats show ?thesis by blast
qed

text \<open>A creation date after the run (twice the clock) is scaled to 2.\<close>

theorem scale_creation_dates_future_date:
  "scale_creation_dates 1700000000
     \<lparr>index = [PyInt 0], columns = [(''creation_date'', [PyInt 3400000000])]\<rparr>
   = Inr \<lparr>index = [PyInt 0], columns = [(''creation_date'', [PyFloat 2])]\<rparr>"
  by code_simp

lemma scale_creation_dates_example:
  "scale_creation_dates 1700000000 example_dates
   = Inr \<lparr>index = [PyInt 0, PyInt 1],
          columns = [(''creation_date'', [PyFloat (1 / 2), PyFloat (3 / 4)])]\<rparr>"
  by code_simp

lemma is_binary64_example: "is_binary64 1700000000"
  by code_simp

theorem scale_creation_dates_range_witness:
  "scale_creation_dates 1700000000 example_dates
     = Inr \<lparr>index = [PyInt 0, PyInt 1],
            columns = [(''creation_date'', [PyFloat (1 / 2), PyFloat (3 / 4)])]\<rparr>
   \<and> is_binary64 1700000000
   \<and> 0 \<le> round_binary64 (float_of_int 850000000 / 1700000000)
   \<and> round_binary64 (float_of_int 850000000 / 1700000000) \<le> 1"
proof -
  have pos: "(0::rat) < 1700000000" by simp
  from scale_creation_dates_range [OF scale_creation_dates_example is_binary64_example pos]
  obtain creation_date scaled where
    c: "getitem example_dates ''creation_date'' = Inr creation_date"
    and ints: "\<forall>i < length creation_date. \<forall>t. creation_date ! i = PyInt t \<longrightarrow>
            scaled ! i = PyFloat (round_binary64 (float_of_int t / 1700000000))
            \<and> (0 \<le> t \<and> of_int t \<le> (1700000000::rat) \<longrightarrow>
                 0 \<le> round_binary64 (float_of_int t / 1700000000)
                 \<and> round_binary64 (float_of_int t / 1700000000) \<le> 1)"
    by blast
  from c have cd: "creation_date = [PyInt 850000000, PyFloat 1275000000]"
    by (simp add: example_dates_def getitem_def)
  have "0 < length creation_date" "creation_date ! 0 = PyInt 850000000"
    by (simp_all add: cd)
  with ints have "0 \<le> (850000000::int) \<and> of_int 850000000 \<le> (1700000000::rat) \<longrightarrow>
                 0 \<le> round_binary64 (float_of_int 850000000 / 1700000000)
                 \<and> round_binary64 (float_of_int 850000000 / 1700000000) \<le> 1"
    by blast
  then have "0 \<le> round_binary64 (float_of_int 850000000 / 1700000000)
      \<and> round_binary64 (float_of_int 850000000 / 1700000000) \<le> 1"
    by simp
  with scale_creation_dates_example is_binary64_example show ?thesis by simp
qed

subsection \<open>C5: the loader\<close>

text \<open>
  C5. \<open>load_fake_news_data\<close> sends exactly one request, for the fixed base URL
  followed by the file name, whatever the outcome (no retry). If the request raises,
  or the parser raises on the response, that exception is the result; if the parsed
  frame has no column is_fake the result is the KeyError of \<open>drop\<close>. Otherwise it
  returns the pair of the frame without the column is_fake (all other columns and the
  row labels unchanged) and the cells of the column is_fake.
\<close>

theorem load_fake_news_data_contract:
  "snd (load_fake_news_data http read_json file_name sent) = sent @ [base_url @ file_name]
   \<and> (\<forall>e. http sent (base_url @ file_name) = Inl e \<longrightarrow>
         fst (load_fake_news_data http read_json file_name sent) = Inl e)
   \<and> (\<forall>json_data e. http sent (base_url @ file_name) = Inr json_data
         \<and> read_json json_data = Inl e \<longrightarrow>
         fst (load_fake_news_data http read_json file_name sent) = Inl e)
   \<and> (\<forall>json_data df. http sent (base_url @ file_name) = Inr json_data
         \<and> read_json json_data = Inr df \<and> ''is_fake'' \<notin> column_names df \<longrightarrow>
         fst (load_fake_news_data http read_json file_name sent) = Inl (KeyError [''is_fake'']))
   \<and> (\<forall>json_data df. http sent (base_url @ file_name) = Inr json_data
         \<and> read_json json_data = Inr df \<and> ''is_fake'' \<in> column_names df \<longrightarrow>
         (\<exists>features labels.
            fst (load_fake_news_data http read_json file_name sent) = Inr (features, labels)
          \<and> getitem df ''is_fake'' = Inr labels
          \<and> ''is_fake'' \<notin> column_names features
          \<and> column_names features = column_names df - {''is_fake''}
          \<and> index features = index df
          \<and> (\<forall>name. name \<noteq> ''is_fake'' \<longrightarrow> getitem features name = getitem df name)))"
proof (intro conjI allI impI)
  show "snd (load_fake_news_data http read_json file_name sent) = sent @ [base_url @ file_name]"
    by (simp add: load_fake_news_data_def requests_get_text_def Let_def)
next
  fix e assume "http sent (base_url @ file_name) = Inl e"
  then show "fst (load_fake_news_data http read_json file_name sent) = Inl e"
    by (simp add: load_fake_news_data_def requests_get_text_def Let_def)
next
  fix json_data e
  assume "http sent (base_url @ file_name) = Inr json_data \<and> read_json json_data = Inl e"
  then show "fst (load_fake_news_data http read_json file_name sent) = Inl e"
    by (simp add: load_fake_news_data_def requests_get_text_def Let_def)
next
  fix json_data df
  assume "http sent (base_url @ file_name) = Inr json_data
         \<and> read_json json_data = Inr df \<and> ''is_fake'' \<notin> column_names df"
  then show "fst (load_fake_news_data http read_json file_name sent) = Inl (KeyError [''is_fake''])"
    by (simp add: load_fake_news_data_def requests_get_text_def Let_def drop_columns_def)
next
  fix json_data df
  assume a: "http sent (base_url @ file_name) = Inr json_data
         \<and> read_json json_data = Inr df \<and> ''is_fake'' \<in> column_names df"
  then obtain labels where l: "getitem df ''is_fake'' = Inr labels"
    using getitem_present by blast
  define features where
    "features = df\<lparr>columns := filter (\<lambda>c. fst c \<notin> set [''is_fake'']) (columns df)\<rparr>"
  have d: "drop_columns [''is_fake''] df = Inr features"
    unfolding drop_columns_eq_Inr features_def using a by simp
  have r: "fst (load_fake_news_data http read_json file_name sent) = Inr (features, labels)"
    using a d l by (simp add: load_fake_news_data_def requests_get_text_def Let_def)
  have "column_names features = column_names df - set [''is_fake'']"
    unfolding features_def by (rule column_names_filter)
  then have n: "column_names features = column_names df - {''is_fake''}"
    by simp
  have g: "getitem features name = getitem df name" if "name \<noteq> ''is_fake''" for name
    unfolding features_def getitem_filter using that by simp
  have i: "index features = index df" by (simp add: features_def)
  from r l n g i show "\<exists>features labels.
            fst (load_fake_news_data http read_json file_name sent) = Inr (features, labels)
          \<and> getitem df ''is_fake'' = Inr labels
          \<and> ''is_fake'' \<notin> column_names features
          \<and> column_names features = column_names df - {''is_fake''}
          \<and> index features = index df
          \<and> (\<forall>name. name \<noteq> ''is_fake'' \<longrightarrow> getitem features name = getitem df name)"
    by blast
qed

theorem load_fake_news_data_contract_witness:
  "snd (load_fake_news_training_data example_http example_read_json [])
     = [base_url @ ''fakenewsnet_modified_training_set.json'']
   \<and> (\<exists>features.
        fst (load_fake_news_training_data example_http example_read_json [])
          = Inr (features, [PyBool False, PyBool True])
      \<and> ''is_fake'' \<notin> column_names features
      \<and> getitem features ''tweets'' = Inr [PyInt 3, PyInt 0])
   \<and> fst (load_fake_news_testing_data example_http example_read_json []) = Inl ValueError
   \<and> fst (load_fake_news_data example_http example_read_json ''other.json'' [])
       = Inl (LibraryError ''ConnectionError'')"
proof -
  note t = load_fake_news_data_contract [of example_http example_read_json _ "[]"]
  note training = t [of "''fakenewsnet_modified_training_set.json''",
      folded load_fake_news_training_data_def]
  note testing = t [of "''fakenewsnet_modified_testing_set.json''",
      folded load_fake_news_testing_data_def]
  note other = t [of "''other.json''"]
  from training have "snd (load_fake_news_training_data example_http example_read_json [])
      = [] @ [base_url @ ''fakenewsnet_modified_training_set.json'']"
    by (elim conjE)
  then have sent: "snd (load_fake_news_training_data example_http example_read_json [])
      = [base_url @ ''fakenewsnet_modified_training_set.json'']"
    by simp
  have h: "example_http [] (base_url @ ''fakenewsnet_modified_training_set.json'')
      = Inr ''<the training set>''
    \<and> example_read_json ''<the training set>'' = Inr example_labelled
    \<and> ''is_fake'' \<in> column_names example_labelled"
    by (simp add: example_http_def example_read_json_def example_labelled_def column_names_def)
  from training have "\<forall>json_data df.
      example_http [] (base_url @ ''fakenewsnet_modified_training_set.json'') = Inr json_data
         \<and> example_read_json json_data = Inr df \<and> ''is_fake'' \<in> column_names df \<longrightarrow>
         (\<exists>features labels.
            fst (load_fake_news_training_data example_http example_read_json [])
              = Inr (features, labels)
          \<and> getitem df ''is_fake'' = Inr labels
          \<and> ''is_fake'' \<notin> column_names features
          \<and> column_names features = column_names df - {''is_fake''}
          \<and> index features = index df
          \<and> (\<forall>name. name \<noteq> ''is_fake'' \<longrightarrow> getitem features name = getitem df name))"
    by (elim conjE)
  from this [rule_format, OF h] obtain features labels where
    f: "fst (load_fake_news_training_data example_http example_read_json [])
          = Inr (features, labels)"
      "getitem example_labelled ''is_fake'' = Inr labels"
      "''is_fake'' \<notin> column_names features"
      "\<forall>name. name \<noteq> ''is_fake'' \<longrightarrow> getitem features name = getitem example_labelled name"
    by (elim exE conjE) (rule that)
  from f(2) have labels: "labels = [PyBool False, PyBool True]"
    by (simp add: example_labelled_def getitem_def)
  from f(4) have "getitem features ''tweets'' = getitem example_labelled ''tweets''"
    by simp
  then have tweets: "getitem features ''tweets'' = Inr [PyInt 3, PyInt 0]"
    by (simp add: example_labelled_def getitem_def)
  from f(1,3) tweets have ok: "\<exists>features.
        fst (load_fake_news_training_data example_http example_read_json [])
          = Inr (features, [PyBool False, PyBool True])
      \<and> ''is_fake'' \<notin> column_names features
      \<and> getitem features ''tweets'' = Inr [PyInt 3, PyInt 0]"
    unfolding labels by (intro exI conjI)
  have b: "example_http [] (base_url @ ''fakenewsnet_modified_testing_set.json'')
      = Inr ''404: Not Found'' \<and> example_read_json ''404: Not Found'' = Inl ValueError"
    by (simp add: example_http_def example_read_json_def)
  from testing have "\<forall>json_data e.
      example_http [] (base_url @ ''fakenewsnet_modified_testing_set.json'') = Inr json_data
         \<and> example_read_json json_data = Inl e \<longrightarrow>
         fst (load_fake_news_testing_data example_http example_read_json []) = Inl e"
    by (elim conjE)
  from this [rule_format, OF b]
  have bad_json: "fst (load_fake_news_testing_data example_http example_read_json [])
      = Inl ValueError" .
  have n: "example_http [] (base_url @ ''other.json'') = Inl (LibraryError ''ConnectionError'')"
    by (simp add: example_http_def)
  from other have "\<forall>e. example_http [] (base_url @ ''other.json'') = Inl e \<longrightarrow>
         fst (load_fake_news_data example_http example_read_json ''other.json'' []) = Inl e"
    by (elim conjE)
  from this [rule_format, OF n]
  have no_net: "fst (load_fake_news_data example_http example_read_json ''other.json'' [])
       = Inl (LibraryError ''ConnectionError'')" .
  from sent ok bad_json no_net show ?thesis by (intro conjI)
qed

subsection \<open>C7: the classical model evaluator\<close>

lemma evaluate_models_loop_ok:
  assumes "\<forall>m \<in> set ms. \<exists>r. cross_val_score sk (snd m) X y (KFold 10) ''accuracy'' = Inr r"
  shows "\<exists>new. evaluate_models_loop sk X y ms printed = (Inr (), printed @ new)
            \<and> list_all2 (report_of sk X y) ms new"
  using assms
proof (induction ms arbitrary: printed)
  case Nil
  then show ?case by simp
next
  case (Cons m ms)
  obtain name model where m: "m = (name, model)" by (cases m)
  from Cons.prems obtain r where
    r: "cross_val_score sk model X y (KFold 10) ''accuracy'' = Inr r"
    by (auto simp add: m)
  define line where "line = \<lparr>model_name = name,
      average_accuracy = float_mul (array_mean sk r) 100,
      standard_deviation = float_mul (array_std sk r) 100\<rparr>"
  from Cons.prems have "\<forall>m \<in> set ms. \<exists>r. cross_val_score sk (snd m) X y (KFold 10) ''accuracy'' = Inr r"
    by simp
  from Cons.IH [OF this, of "printed @ [line]"] obtain new where
    new: "evaluate_models_loop sk X y ms (printed @ [line]) = (Inr (), (printed @ [line]) @ new)"
      "list_all2 (report_of sk X y) ms new"
    by blast
  have "report_of sk X y m line"
    using r by (simp add: report_of_def m line_def KFold_def)
  with new have "evaluate_models_loop sk X y (m # ms) printed = (Inr (), printed @ (line # new))
      \<and> list_all2 (report_of sk X y) (m # ms) (line # new)"
    by (simp add: m r line_def)
  then show ?case by blast
qed

lemma evaluate_models_loop_length:
  "length (snd (evaluate_models_loop sk X y ms printed)) \<le> length printed + length ms"
proof (induction ms arbitrary: printed)
  case Nil
  then show ?case by simp
next
  case (Cons m ms)
  obtain name model where m: "m = (name, model)" by (cases m)
  show ?case
  proof (cases "cross_val_score sk model X y (KFold 10) ''accuracy''")
    case (Inl e)
    then show ?thesis by (simp add: m)
  next
    case (Inr r)
    then show ?thesis
      using Cons.IH [of "printed @ [\<lparr>model_name = name,
        average_accuracy = float_mul (array_mean sk r) 100,
        standard_deviation = float_mul (array_std sk r) 100\<rparr>]"]
      by (simp add: m)
  qed
qed

text \<open>
  C7. The panel has exactly 8 classifier configurations. Every call of
  \<^verbatim>\<open>cross_val_score\<close> is made with a \<open>KFold\<close> of 10 splits that does not shuffle,
  and with accuracy as the score. If these calls succeed, the evaluator prints exactly
  8 messages, one per classifier in the order of the panel, each with the classifier's
  name and the mean and the standard deviation (times 100) of the scores of its
  folds. It never prints more than 8.
\<close>

theorem evaluate_sklearn_models_reports:
  "length models = 8
   \<and> map fst models =
       [''Logistic Regression'', ''Linear Discriminant Analysis'', ''K-Nearest Neighbors'',
        ''Decision Tree'', ''Gaussian Naive Bayes'', ''Support Vector Machine'',
        ''Bagging Classifier'', ''Random Forest Classifier'']
   \<and> length (snd (evaluate_sklearn_models sk X y)) \<le> 8
   \<and> ((\<forall>m \<in> set models. \<exists>r.
          cross_val_score sk (snd m) X y \<lparr>n_splits = 10, shuffle = False\<rparr> ''accuracy'' = Inr r)
        \<longrightarrow> (\<exists>printed. evaluate_sklearn_models sk X y = (Inr (), printed)
              \<and> length printed = 8
              \<and> map model_name printed = map fst models
              \<and> list_all2 (report_of sk X y) models printed))"
proof (intro conjI impI)
  show "length models = 8" by (simp add: models_def)
  show "map fst models =
       [''Logistic Regression'', ''Linear Discriminant Analysis'', ''K-Nearest Neighbors'',
        ''Decision Tree'', ''Gaussian Naive Bayes'', ''Support Vector Machine'',
        ''Bagging Classifier'', ''Random Forest Classifier'']"
    by (simp add: models_def)
  show "length (snd (evaluate_sklearn_models sk X y)) \<le> 8"
    using evaluate_models_loop_length [of sk X y models "[]"]
    by (simp add: evaluate_sklearn_models_def models_def)
next
  assume "\<forall>m \<in> set models. \<exists>r.
          cross_val_score sk (snd m) X y \<lparr>n_splits = 10, shuffle = False\<rparr> ''accuracy'' = Inr r"
  then have "\<forall>m \<in> set models. \<exists>r. cross_val_score sk (snd m) X y (KFold 10) ''accuracy'' = Inr r"
    by (simp add: KFold_def)
  from evaluate_models_loop_ok [OF this, of "[]"] obtain printed where
    p: "evaluate_sklearn_models sk X y = (Inr (), printed)"
      "list_all2 (report_of sk X y) models printed"
    by (auto simp add: evaluate_sklearn_models_def)
  from p(2) have len: "length printed = 8"
    by (simp add: list_all2_lengthD [symmetric] models_def)
  have "map model_name printed = map fst models"
    using p(2) by (induction rule: list_all2_induct) (auto simp add: report_of_def)
  with p len show "\<exists>printed. evaluate_sklearn_models sk X y = (Inr (), printed)
              \<and> length printed = 8
              \<and> map model_name printed = map fst models
              \<and> list_all2 (report_of sk X y) models printed"
    by blast
qed

theorem evaluate_sklearn_models_reports_witness:
  "\<exists>printed.
      evaluate_sklearn_models example_sklearn example_training example_training_labels
        = (Inr (), printed)
    \<and> length printed = 8
    \<and> map model_name printed =
       [''Logistic Regression'', ''Linear Discriminant Analysis'', ''K-Nearest Neighbors'',
        ''Decision Tree'', ''Gaussian Naive Bayes'', ''Support Vector Machine'',
        ''Bagging Classifier'', ''Random Forest Classifier'']"
proof -
  note t = evaluate_sklearn_models_reports
    [of example_sklearn example_training example_training_labels]
  have ok: "\<forall>m \<in> set models. \<exists>r.
      cross_val_score example_sklearn (snd m) example_training example_training_labels
        \<lparr>n_splits = 10, shuffle = False\<rparr> ''accuracy'' = Inr r"
    by (simp add: example_sklearn_def example_training_def)
  from t have names: "map fst models =
       [''Logistic Regression'', ''Linear Discriminant Analysis'', ''K-Nearest Neighbors'',
        ''Decision Tree'', ''Gaussian Naive Bayes'', ''Support Vector Machine'',
        ''Bagging Classifier'', ''Random Forest Classifier'']"
    by (elim conjE)
  from t have "(\<forall>m \<in> set models. \<exists>r.
          cross_val_score example_sklearn (snd m) example_training example_training_labels
            \<lparr>n_splits = 10, shuffle = False\<rparr> ''accuracy'' = Inr r)
        \<longrightarrow> (\<exists>printed.
              evaluate_sklearn_models example_sklearn example_training example_training_labels
                = (Inr (), printed)
              \<and> length printed = 8
              \<and> map model_name printed = map fst models
              \<and> list_all2 (report_of example_sklearn example_training example_training_labels)
                   models printed)"
    by (elim conjE)
  from this [THEN mp, OF ok] obtain printed where
    p: "evaluate_sklearn_models example_sklearn example_training example_training_labels
          = (Inr (), printed)"
      "length printed = 8" "map model_name printed = map fst models"
    by (elim exE conjE) (rule that)
  from p show ?thesis unfolding names by (intro exI conjI)
qed

lemma evaluate_sklearn_models_example:
  "evaluate_sklearn_models example_sklearn example_training example_training_labels =
     (Inr (),
      [\<lparr>model_name = ''Logistic Regression'', average_accuracy = 100, standard_deviation = 0\<rparr>,
       \<lparr>model_name = ''Linear Discriminant Analysis'', average_accuracy = 100, standard_deviation = 0\<rparr>,
       \<lparr>model_name = ''K-Nearest Neighbors'', average_accuracy = 100, standard_deviation = 0\<rparr>,
       \<lparr>model_name = ''Decision Tree'', average_accuracy = 100, standard_deviation = 0\<rparr>,
       \<lparr>model_name = ''Gaussian Naive Bayes'', average_accuracy = 50, standard_deviation = 0\<rparr>,
       \<lparr>model_name = ''Support Vector Machine'', average_accuracy = 100, standard_deviation = 0\<rparr>,
       \<lparr>model_name = ''Bagging Classifier'', average_accuracy = 100, standard_deviation = 0\<rparr>,
       \<lparr>model_name = ''Random Forest Classifier'', average_accuracy = 100, standard_deviation = 0\<rparr>])"
  by code_simp

subsection \<open>C9: training\<close>

text \<open>
  C9, as the code has it. \<open>train_neural_network\<close> calls \<open>fit\<close> once, on all the rows
  of the training table and the whole label vector, with 400 epochs, no callbacks (so
  no early stopping), no validation split and no validation data, and no batch size:
  Keras then updates once per 32 rows, not once per epoch.
\<close>

theorem train_neural_network_fit_call:
  "train_neural_network fit model X y =
     fit model \<lparr>inputs = dataframe_values X, targets = y, batch_size = None, epochs = 400,
       callbacks = [], validation_split = 0, validation_data = None\<rparr>
   \<and> length (dataframe_values X) = length (index X)
   \<and> keras_batch_size \<lparr>inputs = dataframe_values X, targets = y, batch_size = None,
       epochs = 400, callbacks = [], validation_split = 0, validation_data = None\<rparr> = 32
   \<and> keras_updates_per_epoch \<lparr>inputs = dataframe_values X, targets = y, batch_size = None,
       epochs = 400, callbacks = [], validation_split = 0, validation_data = None\<rparr>
       = (length (index X) + 31) div 32"
  by (simp add: train_neural_network_def keras_fit_defaults_def keras_batch_size_def
      keras_updates_per_epoch_def dataframe_values_def)

text \<open>On 350 articles an epoch is 11 gradient updates of at most 32 rows, not one
  update on the full batch.\<close>

theorem train_neural_network_mini_batches:
  "train_neural_network recording_fit (keras_fit_defaults [] []) example_articles
      (replicate 350 (PyBool True))
     = Inr \<lparr>inputs = replicate 350 [PyInt 1], targets = replicate 350 (PyBool True),
            batch_size = None, epochs = 400, callbacks = [], validation_split = 0,
            validation_data = None\<rparr>
   \<and> keras_batch_size \<lparr>inputs = replicate 350 [PyInt 1], targets = replicate 350 (PyBool True),
            batch_size = None, epochs = 400, callbacks = [], validation_split = 0,
            validation_data = None\<rparr> = 32
   \<and> keras_updates_per_epoch \<lparr>inputs = replicate 350 [PyInt 1],
            targets = replicate 350 (PyBool True),
            batch_size = None, epochs = 400, callbacks = [], validation_split = 0,
            validation_data = None\<rparr> = 11"
  by code_simp

end
